theory Spec2Isabelle
  imports Complex_Main "HOL-Library.Word" "HOL-Library.Sublist" "HOL-Library.Multiset"
begin

section \<open>Data model (types.ts)\<close>

subsection \<open>Strings\<close>

text \<open>
  A JavaScript string is a sequence of 16-bit code units: \<open>length\<close> is the source's
  \<open>.length\<close> and \<open>take n\<close> is \<open>.slice(0, n)\<close>.
\<close>

type_synonym jsstring = "16 word list"

definition utf16 :: "string \<Rightarrow> jsstring" where
  "utf16 s = map (\<lambda>c. of_nat (of_char c)) s"

text \<open>
  \<open>String.prototype.toLowerCase\<close> follows the Unicode case tables, which are not part of
  the program. Every definition below that lower-cases a string takes the function as
  its first argument \<open>toLowerCase\<close>, and every theorem holds for whatever function that is.
  On a string of ASCII code units the tables map A to Z onto a to z and nothing else;
  \<open>asciiLower\<close> is that map, and it stands for \<open>toLowerCase\<close> only in the examples, whose
  strings are ASCII.
\<close>

definition lowerUnit :: "16 word \<Rightarrow> 16 word" where
  "lowerUnit c = (if 0x41 \<le> c \<and> c \<le> 0x5A then c + 0x20 else c)"

definition asciiLower :: "jsstring \<Rightarrow> jsstring" where
  "asciiLower s = map lowerUnit s"

subsection \<open>Numbers\<close>

text \<open>
  The numbers the program computes with (embeddings, dot products, norms, scores) are
  IEEE 754 binary64 values: a real rounded to 53 significant bits, an infinity, or NaN.
  \<open>Finite x\<close> is the number \<open>x\<close>; a number of the program is \<open>Finite x\<close> for a representable
  \<open>x\<close>, and the operations below round their result whatever \<open>x\<close> is. The two zeros are
  one value \<open>Finite 0\<close>: they are \<open>===\<close> and compare equal, and differ only as a divisor;
  the divisor of the program's one division is a product of square roots, never the
  negative zero.

  Timestamps (\<open>createdAt\<close>, \<open>startDate\<close>, \<open>endDate\<close>) are only compared, and subtracted
  for the sign of the difference; on finite numbers both agree with the reals, and they
  are reals here.
\<close>

datatype double = Finite real | PosInf | NegInf | NaN

text \<open>Rounding to the nearest integer, a tie to the even one.\<close>

definition roundHalfEven :: "real \<Rightarrow> int" where
  "roundHalfEven x =
     (let n = \<lfloor>x\<rfloor>; r = x - of_int n
      in if r < 1 / 2 then n else if 1 / 2 < r then n + 1 else if even n then n else n + 1)"

text \<open>
  The exponent of the unit in the last place at \<open>x\<close>: 52 bits below the leading bit, and
  never below \<open>-1074\<close> (the subnormal numbers share the spacing \<open>2 powr -1074\<close>).
\<close>

definition ulpExponent :: "real \<Rightarrow> int" where
  "ulpExponent x = max \<lfloor>log 2 \<bar>x\<bar>\<rfloor> (- 1022) - 52"

definition overflowThreshold :: real where
  "overflowThreshold = 2 ^ 1024"

text \<open>
  Round to nearest, ties to even: the multiple of the unit in the last place nearest to
  \<open>x\<close>, and an infinity when that reaches \<open>2 ^ 1024\<close>.
\<close>

definition roundDouble :: "real \<Rightarrow> double" where
  "roundDouble x =
     (if x = 0 then Finite 0
      else (let u = 2 powr of_int (ulpExponent x);
                y = of_int (roundHalfEven (x / u)) * u
            in if overflowThreshold \<le> y then PosInf
               else if y \<le> - overflowThreshold then NegInf
               else Finite y))"

fun fneg :: "double \<Rightarrow> double" where
  "fneg (Finite x) = Finite (- x)"
| "fneg PosInf = NegInf"
| "fneg NegInf = PosInf"
| "fneg NaN = NaN"

text \<open>The operators \<open>+\<close>, \<open>-\<close>, \<open>*\<close>, \<open>/\<close> and \<open>Math.sqrt\<close> on numbers.\<close>

fun fadd :: "double \<Rightarrow> double \<Rightarrow> double" where
  "fadd (Finite x) (Finite y) = roundDouble (x + y)"
| "fadd NaN y = NaN"
| "fadd x NaN = NaN"
| "fadd PosInf NegInf = NaN"
| "fadd NegInf PosInf = NaN"
| "fadd PosInf y = PosInf"
| "fadd x PosInf = PosInf"
| "fadd NegInf y = NegInf"
| "fadd x NegInf = NegInf"

definition fsub :: "double \<Rightarrow> double \<Rightarrow> double" where
  "fsub x y = fadd x (fneg y)"

fun fmul :: "double \<Rightarrow> double \<Rightarrow> double" where
  "fmul (Finite x) (Finite y) = roundDouble (x * y)"
| "fmul NaN y = NaN"
| "fmul x NaN = NaN"
| "fmul (Finite x) y = (if x = 0 then NaN else if 0 < x then y else fneg y)"
| "fmul x (Finite y) = (if y = 0 then NaN else if 0 < y then x else fneg x)"
| "fmul PosInf y = y"
| "fmul NegInf y = fneg y"

fun fdiv :: "double \<Rightarrow> double \<Rightarrow> double" where
  "fdiv (Finite x) (Finite y) =
     (if y = 0 then (if x = 0 then NaN else if 0 < x then PosInf else NegInf)
      else roundDouble (x / y))"
| "fdiv NaN y = NaN"
| "fdiv x NaN = NaN"
| "fdiv (Finite x) y = Finite 0"
| "fdiv x (Finite y) = (if 0 \<le> y then x else fneg x)"
| "fdiv x y = NaN"

fun fsqrt :: "double \<Rightarrow> double" where
  "fsqrt (Finite x) = (if x < 0 then NaN else roundDouble (sqrt x))"
| "fsqrt PosInf = PosInf"
| "fsqrt NegInf = NaN"
| "fsqrt NaN = NaN"



subsection \<open>Notes and intents\<close>

datatype ContentType = TEXT | IMAGE | LINK

datatype Language = EN | ZH

record Memory =
  id :: jsstring
  originalContent :: jsstring
  type :: ContentType
  imageData :: "jsstring option"
  summary :: jsstring
  tags :: "jsstring list"
  category :: jsstring
  createdAt :: real
  embedding :: "double list option"

text \<open>
  The field \<open>keywords\<close> of \<open>ParsedIntent\<close> is \<open>keywords_str\<close> here (\<open>keywords\<close> is a
  reserved word of the theory language).
\<close>

record ParsedIntent =
  keywords_str :: jsstring
  category :: "jsstring option"
  tags :: "jsstring list"
  startDate :: "real option"
  endDate :: "real option"

section \<open>cosineSimilarity\<close>

text \<open>
  The \<open>for\<close> loop of \<open>cosineSimilarity\<close>, with its three accumulators. It is entered
  only after the length check, so \<open>vecB ! i\<close> is read in range.
\<close>

function cosineLoop ::
  "double list \<Rightarrow> double list \<Rightarrow> nat \<Rightarrow> double \<times> double \<times> double \<Rightarrow> double \<times> double \<times> double" where
  "cosineLoop vecA vecB i (dotProduct, normA, normB) =
     (if i < length vecA
      then cosineLoop vecA vecB (i + 1)
             (fadd dotProduct (fmul (vecA ! i) (vecB ! i)),
              fadd normA (fmul (vecA ! i) (vecA ! i)),
              fadd normB (fmul (vecB ! i) (vecB ! i)))
      else (dotProduct, normA, normB))"
  by pat_completeness auto
termination
  by (relation "measure (\<lambda>(vecA, vecB, i, acc). length vecA - i)") auto

declare cosineLoop.simps [simp del]

text \<open>\<open>None\<close> is a missing vector (\<open>undefined\<close> or \<open>null\<close>); an empty array is truthy.\<close>

definition cosineSimilarity :: "double list option \<Rightarrow> double list option \<Rightarrow> double" where
  "cosineSimilarity vecA vecB =
     (case vecA of
        None \<Rightarrow> Finite 0
      | Some a \<Rightarrow>
          (case vecB of
             None \<Rightarrow> Finite 0
           | Some b \<Rightarrow>
               if length a \<noteq> length b then Finite 0
               else (case cosineLoop a b 0 (Finite 0, Finite 0, Finite 0) of
                       (dotProduct, normA, normB) \<Rightarrow>
                         if normA = Finite 0 \<or> normB = Finite 0 then Finite 0
                         else fdiv dotProduct (fmul (fsqrt normA) (fsqrt normB)))))"

text \<open>
  The words of the specification. The dot product and the squared magnitude as the
  program accumulates them, from left to right, each product and each sum rounded; the
  all-zero vector; and a number between -1 and 1.
\<close>

definition accumulatedDot :: "double list \<Rightarrow> double list \<Rightarrow> double" where
  "accumulatedDot a b = foldl (\<lambda>s (x, y). fadd s (fmul x y)) (Finite 0) (zip a b)"

definition accumulatedSquares :: "double list \<Rightarrow> double" where
  "accumulatedSquares a = accumulatedDot a a"

definition all_zero :: "double list \<Rightarrow> bool" where
  "all_zero v = list_all (\<lambda>x. x = Finite 0) v"


text \<open>A finite number within \<open>e\<close> of \<open>x\<close>.\<close>

fun approximately :: "real \<Rightarrow> real \<Rightarrow> double \<Rightarrow> bool" where
  "approximately x e (Finite c) = (\<bar>c - x\<bar> \<le> e)"
| "approximately x e c = False"

text \<open>A number whose square underflows to 0: \<open>1 / 2 ^ 600\<close>, about 2.4e-181.\<close>

definition tiny :: double where
  "tiny = Finite (1 / 2 ^ 600)"
section \<open>The remote model calls\<close>

text \<open>
  Every call to the generative model is followed by the same three steps in the source:
  await the promise, test \<open>response.text\<close> for truthiness, \<open>JSON.parse\<close> it. What the
  \<open>try\<close> block sees is one of four outcomes: the promise rejects (network, timeout,
  non-2xx), the text is \<open>undefined\<close> or empty, \<open>JSON.parse\<close> throws a SyntaxError, or
  \<open>JSON.parse\<close> returns a value. The request (prompt, schema) only travels to the remote
  service and is not part of the model.
\<close>

datatype 'a generation = Rejected | NoText | Malformed | Parsed 'a

datatype js_error = TransportError | EmptyResponse | SyntaxError | TypeError

text \<open>\<open>ai.models.embedContent\<close>: the promise rejects, or \<open>response.embeddings?.[0]?.values\<close>.\<close>

datatype embedding_call = EmbedRejected | EmbedReturned "double list option"

definition getEmbedding :: "embedding_call \<Rightarrow> double list option" where
  "getEmbedding reply = (case reply of EmbedRejected \<Rightarrow> None | EmbedReturned values \<Rightarrow> values)"

section \<open>analyzeContent\<close>

text \<open>
  \<open>JSON.parse(response.text) as ProcessingResult\<close> is a cast, not a check: the value is
  whatever JSON the model returned. So the parsed value is an untyped JavaScript value.
\<close>

datatype jsval =
    JUndefined
  | JNull
  | JBool bool
  | JNum double
  | JStr jsstring
  | JArr "jsval list"
  | JObj "(jsstring \<times> jsval) list"

text \<open>
  Property read \<open>v.key\<close> for a key that is no built-in property: a TypeError on \<open>null\<close>
  and \<open>undefined\<close>, the own property of an object, \<open>undefined\<close> otherwise.
\<close>

fun getProp :: "jsval \<Rightarrow> jsstring \<Rightarrow> js_error + jsval" where
  "getProp JUndefined key = Inl TypeError"
| "getProp JNull key = Inl TypeError"
| "getProp (JObj props) key = (case map_of props key of None \<Rightarrow> Inr JUndefined | Some v \<Rightarrow> Inr v)"
| "getProp v key = Inr JUndefined"

text \<open>
  The method call \<open>v.join(', ')\<close>: only an array has a callable \<open>join\<close>; on any other
  value parsed from JSON the call is a TypeError. The joined text goes into the embedding
  request only, so the model keeps whether the call succeeds.
\<close>

fun callJoin :: "jsval \<Rightarrow> js_error + unit" where
  "callJoin (JArr items) = Inr ()"
| "callJoin v = Inl TypeError"

text \<open>
  The object spread \<open>{...result, embedding}\<close>: the own properties of \<open>result\<close> in
  their order, then the key \<open>embedding\<close>, which replaces one that is already there; a failed
  embedding leaves the key with the value \<open>undefined\<close>. Only an object gets as far as the
  spread (any other value has thrown at \<open>result.tags.join\<close>); \<open>null\<close>, a boolean and a
  number have no own properties.
\<close>

definition embeddingValue :: "double list option \<Rightarrow> jsval" where
  "embeddingValue e = (case e of None \<Rightarrow> JUndefined | Some values \<Rightarrow> JArr (map JNum values))"

fun setProp :: "jsstring \<Rightarrow> jsval \<Rightarrow> (jsstring \<times> jsval) list \<Rightarrow> (jsstring \<times> jsval) list" where
  "setProp key v [] = [(key, v)]"
| "setProp key v (p # ps) = (if fst p = key then (key, v) # ps else p # setProp key v ps)"

fun spreadWithEmbedding :: "jsval \<Rightarrow> double list option \<Rightarrow> jsval" where
  "spreadWithEmbedding (JObj props) e = JObj (setProp (utf16 ''embedding'') (embeddingValue e) props)"
| "spreadWithEmbedding v e = JObj [(utf16 ''embedding'', embeddingValue e)]"

text \<open>The body of the \<open>try\<close> block: \<open>Inl\<close> is a throw.\<close>

definition analyzeContent_try :: "jsval generation \<Rightarrow> embedding_call \<Rightarrow> js_error + jsval" where
  "analyzeContent_try outcome embedReply =
     (case outcome of
        Rejected \<Rightarrow> Inl TransportError
      | NoText \<Rightarrow> Inl EmptyResponse
      | Malformed \<Rightarrow> Inl SyntaxError
      | Parsed result \<Rightarrow>
          (case getProp result (utf16 ''tags'') of
             Inl err \<Rightarrow> Inl err
           | Inr resultTags \<Rightarrow>
               (case callJoin resultTags of
                  Inl err \<Rightarrow> Inl err
                | Inr u \<Rightarrow> Inr (spreadWithEmbedding result (getEmbedding embedReply)))))"

text \<open>The \<open>catch\<close> block's object.\<close>

definition analyzeFallback :: "jsstring \<Rightarrow> jsval" where
  "analyzeFallback text =
     JObj [(utf16 ''summary'', JStr (take 50 text @ utf16 ''...'')),
           (utf16 ''tags'', JArr [JStr (utf16 ''uncategorized'')]),
           (utf16 ''category'', JStr (utf16 ''General''))]"

text \<open>
  \<open>base64Image\<close>, \<open>existingCategories\<close> and \<open>language\<close> shape the request only.
\<close>

definition analyzeContent ::
  "jsstring \<Rightarrow> jsstring option \<Rightarrow> jsstring list \<Rightarrow> Language \<Rightarrow> jsval generation \<Rightarrow> embedding_call \<Rightarrow> jsval" where
  "analyzeContent text base64Image existingCategories language outcome embedReply =
     (case analyzeContent_try outcome embedReply of
        Inr result \<Rightarrow> result
      | Inl err \<Rightarrow> analyzeFallback text)"

text \<open>
  The response schema of the annotation call, in the words of the specification:
  \<open>{summary: string, tags: string[], category: string}\<close>, all three required.
\<close>

fun isStr :: "jsval \<Rightarrow> bool" where
  "isStr (JStr s) = True"
| "isStr v = False"

fun isStrArray :: "jsval \<Rightarrow> bool" where
  "isStrArray (JArr items) = list_all isStr items"
| "isStrArray v = False"

fun conformsAnnotation :: "jsval \<Rightarrow> bool" where
  "conformsAnnotation (JObj props) =
     ((case map_of props (utf16 ''summary'') of Some v \<Rightarrow> isStr v | None \<Rightarrow> False) \<and>
      (case map_of props (utf16 ''tags'') of Some v \<Rightarrow> isStrArray v | None \<Rightarrow> False) \<and>
      (case map_of props (utf16 ''category'') of Some v \<Rightarrow> isStr v | None \<Rightarrow> False))"
| "conformsAnnotation v = False"

text \<open>What the code does check, by using it: \<open>result.tags\<close> is an array.\<close>

fun hasArrayTags :: "jsval \<Rightarrow> bool" where
  "hasArrayTags (JObj props) =
     (case map_of props (utf16 ''tags'') of Some (JArr items) \<Rightarrow> True | _ \<Rightarrow> False)"
| "hasArrayTags v = False"

section \<open>parseSearchIntent\<close>

text \<open>
  \<open>JSON.parse(response.text) as ParsedIntent\<close> is a cast as well: the function returns
  whatever value the reply parses to, and the \<open>catch\<close> block's object when the \<open>try\<close>
  block throws.
\<close>

definition parseSearchIntent_try :: "jsval generation \<Rightarrow> js_error + jsval" where
  "parseSearchIntent_try outcome =
     (case outcome of
        Rejected \<Rightarrow> Inl TransportError
      | Malformed \<Rightarrow> Inl SyntaxError
      | Parsed v \<Rightarrow> Inr v
      | NoText \<Rightarrow> Inl EmptyResponse)"

definition parseSearchIntent ::
  "jsstring \<Rightarrow> jsstring list \<Rightarrow> Language \<Rightarrow> jsval generation \<Rightarrow> jsval" where
  "parseSearchIntent query categories language outcome =
     (case parseSearchIntent_try outcome of
        Inr v \<Rightarrow> v
      | Inl err \<Rightarrow>
          JObj [(utf16 ''keywords'', JStr query),
                (utf16 ''category'', JNull),
                (utf16 ''tags'', JArr []),
                (utf16 ''startDate'', JNull),
                (utf16 ''endDate'', JNull)])"

text \<open>
  The response schema of the intent call, in the words of the specification:
  \<open>{keywords: string, category: string|null, tags: string[], startDate: number|null,
  endDate: number|null}\<close>, all five required.
\<close>

fun isStrOrNull :: "jsval \<Rightarrow> bool" where
  "isStrOrNull (JStr s) = True"
| "isStrOrNull JNull = True"
| "isStrOrNull v = False"

fun isNumOrNull :: "jsval \<Rightarrow> bool" where
  "isNumOrNull (JNum n) = True"
| "isNumOrNull JNull = True"
| "isNumOrNull v = False"

fun conformsIntent :: "jsval \<Rightarrow> bool" where
  "conformsIntent (JObj props) =
     ((case map_of props (utf16 ''keywords'') of Some v \<Rightarrow> isStr v | None \<Rightarrow> False) \<and>
      (case map_of props (utf16 ''category'') of Some v \<Rightarrow> isStrOrNull v | None \<Rightarrow> False) \<and>
      (case map_of props (utf16 ''tags'') of Some v \<Rightarrow> isStrArray v | None \<Rightarrow> False) \<and>
      (case map_of props (utf16 ''startDate'') of Some v \<Rightarrow> isNumOrNull v | None \<Rightarrow> False) \<and>
      (case map_of props (utf16 ''endDate'') of Some v \<Rightarrow> isNumOrNull v | None \<Rightarrow> False))"
| "conformsIntent v = False"

text \<open>
  \<open>queryBrain\<close> reads the parsed value through the declared type \<open>ParsedIntent\<close>, and its
  model takes a reply of that type. \<open>intentJson\<close> is the object such a reply parses to.
  On these replies \<open>parseSearchIntent\<close> is \<open>parseSearchIntentTyped\<close> (lemma
  \<open>parseSearchIntent_typed\<close> below).
\<close>

definition intentJson :: "ParsedIntent \<Rightarrow> jsval" where
  "intentJson p =
     JObj [(utf16 ''keywords'', JStr (keywords_str p)),
           (utf16 ''category'', (case ParsedIntent.category p of None \<Rightarrow> JNull | Some c \<Rightarrow> JStr c)),
           (utf16 ''tags'', JArr (map JStr (ParsedIntent.tags p))),
           (utf16 ''startDate'', (case startDate p of None \<Rightarrow> JNull | Some d \<Rightarrow> JNum (Finite d))),
           (utf16 ''endDate'', (case endDate p of None \<Rightarrow> JNull | Some d \<Rightarrow> JNum (Finite d)))]"

definition parseSearchIntentTyped ::
  "jsstring \<Rightarrow> jsstring list \<Rightarrow> Language \<Rightarrow> ParsedIntent generation \<Rightarrow> ParsedIntent" where
  "parseSearchIntentTyped query categories language outcome =
     (case outcome of
        Parsed p \<Rightarrow> p
      | _ \<Rightarrow> \<lparr>keywords_str = query, category = None, tags = [], startDate = None, endDate = None\<rparr>)"

section \<open>queryBrain\<close>

subsection \<open>Step 2: the hard filter\<close>

text \<open>
  The callback of \<open>memories.filter\<close>, with its four early returns. The guards test
  JavaScript truthiness: \<open>null\<close>, the empty string and the number 0 are falsy.
  \<open>m.tags.includes(t.toLowerCase())\<close> compares the lower-cased requested tag with the
  note's tags as they are stored. The first argument is \<open>String.prototype.toLowerCase\<close>.
\<close>

definition keepMemory :: "(jsstring \<Rightarrow> jsstring) \<Rightarrow> ParsedIntent \<Rightarrow> Memory \<Rightarrow> bool" where
  "keepMemory toLowerCase parsed m =
     (if (case ParsedIntent.category parsed of
            None \<Rightarrow> False
          | Some c \<Rightarrow> c \<noteq> [] \<and> toLowerCase (Memory.category m) \<noteq> toLowerCase c)
      then False
      else if length (ParsedIntent.tags parsed) > 0 \<and>
              \<not> list_ex (\<lambda>t. toLowerCase t \<in> set (Memory.tags m)) (ParsedIntent.tags parsed)
      then False
      else if (case startDate parsed of None \<Rightarrow> False | Some d \<Rightarrow> d \<noteq> 0 \<and> createdAt m < d)
      then False
      else if (case endDate parsed of None \<Rightarrow> False | Some d \<Rightarrow> d \<noteq> 0 \<and> createdAt m > d)
      then False
      else True)"

definition filterMemories :: "(jsstring \<Rightarrow> jsstring) \<Rightarrow> ParsedIntent \<Rightarrow> Memory list \<Rightarrow> Memory list" where
  "filterMemories toLowerCase parsed memories = filter (keepMemory toLowerCase parsed) memories"

subsection \<open>Step 3: ranking\<close>

text \<open>
  \<open>Array.prototype.sort(compare)\<close>: the engine chooses the algorithm, the language fixes
  the result for a consistent comparator: the elements in ascending order of \<open>compare\<close>,
  equal elements in their original order. Insertion from the right computes it:
  an element goes in front of the first one it does not compare greater than. (For a
  comparator that is not consistent, which needs a NaN score, the language leaves the
  order to the engine; the insertion order is one it may produce.)
\<close>

fun insertSorted :: "('a \<Rightarrow> 'a \<Rightarrow> real) \<Rightarrow> 'a \<Rightarrow> 'a list \<Rightarrow> 'a list" where
  "insertSorted compare x [] = [x]"
| "insertSorted compare x (y # ys) =
     (if compare x y \<le> 0 then x # y # ys else y # insertSorted compare x ys)"

definition array_sort :: "('a \<Rightarrow> 'a \<Rightarrow> real) \<Rightarrow> 'a list \<Rightarrow> 'a list" where
  "array_sort compare xs = foldr (insertSorted compare) xs []"

record Scored =
  memory :: Memory
  score :: double

definition scoreMemory :: "double list \<Rightarrow> Memory \<Rightarrow> Scored" where
  "scoreMemory queryEmbedding m =
     (case embedding m of
        None \<Rightarrow> \<lparr>memory = m, score = Finite (- 1)\<rparr>
      | Some e \<Rightarrow> \<lparr>memory = m, score = cosineSimilarity (Some queryEmbedding) (Some e)\<rparr>)"

text \<open>
  The sort reads of a comparator's result only whether it is negative, zero or positive,
  and takes NaN for zero.
\<close>

fun sortValue :: "double \<Rightarrow> real" where
  "sortValue (Finite x) = x"
| "sortValue PosInf = 1"
| "sortValue NegInf = - 1"
| "sortValue NaN = 0"

definition byScore :: "Scored \<Rightarrow> Scored \<Rightarrow> real" where
  "byScore a b = sortValue (fsub (score b) (score a))"

definition byCreatedAt :: "Memory \<Rightarrow> Memory \<Rightarrow> real" where
  "byCreatedAt a b = createdAt b - createdAt a"

text \<open>The calls a run makes to the remote services, in order.\<close>

datatype remote_call =
    IntentCall jsstring "jsstring list"
  | EmbedCall jsstring
  | AnswerCall "Memory list"



definition rankMemories ::
  "ParsedIntent \<Rightarrow> embedding_call \<Rightarrow> Memory list \<Rightarrow> Memory list \<times> remote_call list" where
  "rankMemories parsed embedReply filteredMemories =
     (if keywords_str parsed \<noteq> [] \<and> length (keywords_str parsed) > 1
      then
        (case getEmbedding embedReply of
           Some queryEmbedding \<Rightarrow>
             if length filteredMemories > 0
             then (map memory (take 10 (array_sort byScore
                     (map (scoreMemory queryEmbedding) filteredMemories))),
                   [EmbedCall (keywords_str parsed)])
             else (take 10 filteredMemories, [EmbedCall (keywords_str parsed)])
         | None \<Rightarrow> (take 10 filteredMemories, [EmbedCall (keywords_str parsed)]))
      else (take 10 (array_sort byCreatedAt filteredMemories), []))"


subsection \<open>Steps 4 to 6: the answer\<close>

record Answer =
  answer :: jsstring
  relatedIds :: "jsstring list"

record QueryResult = Answer +
  usedFilters :: "ParsedIntent option"

definition noMatchesAnswer :: "Language \<Rightarrow> jsstring" where
  "noMatchesAnswer language =
     (if language = ZH
      then [0x62B1, 0x6B49, 0xFF0C, 0x6839, 0x636E, 0x60A8, 0x7684, 0x8FC7, 0x6EE4, 0x6761,
            0x4EF6, 0xFF0C, 0x6211, 0x6CA1, 0x6709, 0x627E, 0x5230, 0x4EFB, 0x4F55, 0x76F8,
            0x5173, 0x8BB0, 0x5FC6, 0x3002]
      else utf16 ''Sorry, I couldn'' @ [0x27] @
           utf16 ''t find any memories matching those filters.'')"

definition errorAnswer :: "Language \<Rightarrow> jsstring" where
  "errorAnswer language =
     (if language = ZH
      then [0x62B1, 0x6B49, 0xFF0C, 0x751F, 0x6210, 0x56DE, 0x7B54, 0x65F6, 0x51FA, 0x9519,
            0x4E86, 0x3002]
      else utf16 ''Sorry, I had trouble processing your request.'')"

text \<open>The final \<open>try\<close>/\<open>catch\<close>: \<open>{...res, usedFilters: parsed}\<close>, or the apology.\<close>

definition synthesize :: "Language \<Rightarrow> ParsedIntent \<Rightarrow> Answer generation \<Rightarrow> QueryResult" where
  "synthesize language parsed outcome =
     (case outcome of
        Parsed res \<Rightarrow>
          \<lparr>answer = answer res, relatedIds = relatedIds res, usedFilters = Some parsed\<rparr>
      | _ \<Rightarrow> \<lparr>answer = errorAnswer language, relatedIds = [], usedFilters = None\<rparr>)"

text \<open>\<open>Array.from(new Set(xs))\<close>: the distinct values in order of first occurrence.\<close>

definition uniqueValues :: "'a list \<Rightarrow> 'a list" where
  "uniqueValues xs = foldl (\<lambda>seen x. if x \<in> set seen then seen else seen @ [x]) [] xs"

text \<open>What the remote services answer during one run of \<open>queryBrain\<close>.\<close>

record remote =
  parseReply :: "ParsedIntent generation"
  embeddingReply :: embedding_call
  synthesisReply :: "Answer generation"

definition queryBrain ::
  "(jsstring \<Rightarrow> jsstring) \<Rightarrow> jsstring \<Rightarrow> Memory list \<Rightarrow> Language \<Rightarrow> remote \<Rightarrow> QueryResult \<times> remote_call list" where
  "queryBrain toLowerCase userQuery memories language services =
     (let uniqueCategories = uniqueValues (map Memory.category memories);
          parsed = parseSearchIntentTyped userQuery uniqueCategories language (parseReply services);
          filteredMemories = filterMemories toLowerCase parsed memories;
          ranked = rankMemories parsed (embeddingReply services) filteredMemories;
          relevantMemories = fst ranked;
          calls = IntentCall userQuery uniqueCategories # snd ranked
      in if length relevantMemories = 0
         then (\<lparr>answer = noMatchesAnswer language, relatedIds = [], usedFilters = Some parsed\<rparr>,
               calls)
         else (synthesize language parsed (synthesisReply services),
               calls @ [AnswerCall relevantMemories]))"

subsection \<open>The hard filter in the words of the specification\<close>

text \<open>
  Two strings are equal case-insensitively when \<open>toLowerCase\<close> maps them to the same
  string. \<open>specKeeps\<close> reads "null" as the only way to switch a condition off and matches
  tags without regard to case on both sides. \<open>truthKeeps\<close> differs in the three guards
  only: the empty category and the dates 0 switch their condition off as well.
\<close>

definition specKeeps :: "(jsstring \<Rightarrow> jsstring) \<Rightarrow> ParsedIntent \<Rightarrow> Memory \<Rightarrow> bool" where
  "specKeeps toLowerCase parsed m =
     ((case ParsedIntent.category parsed of
         None \<Rightarrow> True
       | Some c \<Rightarrow> toLowerCase c = toLowerCase (Memory.category m)) \<and>
      (ParsedIntent.tags parsed = [] \<or>
       list_ex (\<lambda>t. list_ex (\<lambda>u. toLowerCase t = toLowerCase u) (Memory.tags m))
         (ParsedIntent.tags parsed)) \<and>
      (case startDate parsed of None \<Rightarrow> True | Some d \<Rightarrow> createdAt m \<ge> d) \<and>
      (case endDate parsed of None \<Rightarrow> True | Some d \<Rightarrow> createdAt m \<le> d))"

definition truthKeeps :: "(jsstring \<Rightarrow> jsstring) \<Rightarrow> ParsedIntent \<Rightarrow> Memory \<Rightarrow> bool" where
  "truthKeeps toLowerCase parsed m =
     ((case ParsedIntent.category parsed of
         None \<Rightarrow> True
       | Some c \<Rightarrow> c = [] \<or> toLowerCase c = toLowerCase (Memory.category m)) \<and>
      (ParsedIntent.tags parsed = [] \<or>
       list_ex (\<lambda>t. list_ex (\<lambda>u. toLowerCase t = toLowerCase u) (Memory.tags m))
         (ParsedIntent.tags parsed)) \<and>
      (case startDate parsed of None \<Rightarrow> True | Some d \<Rightarrow> d = 0 \<or> createdAt m \<ge> d) \<and>
      (case endDate parsed of None \<Rightarrow> True | Some d \<Rightarrow> d = 0 \<or> createdAt m \<le> d))"

text \<open>
  The data model's invariant on a note: its tags are stored in lower case, that is,
  \<open>toLowerCase\<close> leaves each of them as it is.
\<close>

definition lowerCaseTags :: "(jsstring \<Rightarrow> jsstring) \<Rightarrow> Memory \<Rightarrow> bool" where
  "lowerCaseTags toLowerCase m = list_all (\<lambda>u. toLowerCase u = u) (Memory.tags m)"

subsection \<open>Example data\<close>

definition exampleNote :: "string \<Rightarrow> string list \<Rightarrow> real \<Rightarrow> double list option \<Rightarrow> Memory" where
  "exampleNote c ts t e =
     \<lparr>id = utf16 ''n'', originalContent = [], type = TEXT, imageData = None, summary = [],
      tags = map utf16 ts, category = utf16 c, createdAt = t, embedding = e\<rparr>"

definition exampleIntent :: "string \<Rightarrow> string option \<Rightarrow> string list \<Rightarrow> real option \<Rightarrow> real option \<Rightarrow> ParsedIntent" where
  "exampleIntent k c ts s e =
     \<lparr>keywords_str = utf16 k, category = map_option utf16 c, tags = map utf16 ts,
      startDate = s, endDate = e\<rparr>"

definition exampleRanking :: "Memory list" where
  "exampleRanking =
     [exampleNote ''Coding'' [''a''] 1 None,
      exampleNote ''Coding'' [''b''] 2 (Some [Finite 0, Finite 1]),
      exampleNote ''Coding'' [''c''] 3 (Some [Finite 1, Finite 0])]"

section \<open>queryBrain on the caller's array\<close>

text \<open>
  \<open>queryBrain\<close> receives a reference to the array the application holds. The store has
  the arrays of notes and the arrays of scored notes; a reference is an index into it.
  \<open>filter\<close>, \<open>map\<close> and \<open>slice\<close> allocate a new array; \<open>sort\<close> rearranges the array it
  is called on and returns the same reference. No statement of \<open>queryBrain\<close> assigns to a
  field of a note, so the arrays hold the notes by value. A read through a reference
  that is not in the store is \<open>None\<close>: TypeScript's types exclude it.
\<close>

type_synonym ref = nat

record store =
  noteArrays :: "Memory list list"
  scoredArrays :: "Scored list list"

definition readNotes :: "store \<Rightarrow> ref \<Rightarrow> Memory list option" where
  "readNotes st r = (if r < length (noteArrays st) then Some (noteArrays st ! r) else None)"

definition readScored :: "store \<Rightarrow> ref \<Rightarrow> Scored list option" where
  "readScored st r = (if r < length (scoredArrays st) then Some (scoredArrays st ! r) else None)"

definition newNotes :: "Memory list \<Rightarrow> store \<Rightarrow> ref \<times> store" where
  "newNotes xs st = (length (noteArrays st), st\<lparr>noteArrays := noteArrays st @ [xs]\<rparr>)"

definition newScored :: "Scored list \<Rightarrow> store \<Rightarrow> ref \<times> store" where
  "newScored xs st = (length (scoredArrays st), st\<lparr>scoredArrays := scoredArrays st @ [xs]\<rparr>)"

definition filterRef :: "(Memory \<Rightarrow> bool) \<Rightarrow> ref \<Rightarrow> store \<Rightarrow> (ref \<times> store) option" where
  "filterRef keep r st = map_option (\<lambda>xs. newNotes (filter keep xs) st) (readNotes st r)"

definition sliceRef :: "nat \<Rightarrow> ref \<Rightarrow> store \<Rightarrow> (ref \<times> store) option" where
  "sliceRef n r st = map_option (\<lambda>xs. newNotes (take n xs) st) (readNotes st r)"

definition sortRef :: "(Memory \<Rightarrow> Memory \<Rightarrow> real) \<Rightarrow> ref \<Rightarrow> store \<Rightarrow> (ref \<times> store) option" where
  "sortRef compare r st =
     map_option (\<lambda>xs. (r, st\<lparr>noteArrays := (noteArrays st)[r := array_sort compare xs]\<rparr>))
       (readNotes st r)"

definition mapScoreRef :: "(Memory \<Rightarrow> Scored) \<Rightarrow> ref \<Rightarrow> store \<Rightarrow> (ref \<times> store) option" where
  "mapScoreRef f r st = map_option (\<lambda>xs. newScored (map f xs) st) (readNotes st r)"

definition sortScoredRef :: "(Scored \<Rightarrow> Scored \<Rightarrow> real) \<Rightarrow> ref \<Rightarrow> store \<Rightarrow> (ref \<times> store) option" where
  "sortScoredRef compare r st =
     map_option (\<lambda>xs. (r, st\<lparr>scoredArrays := (scoredArrays st)[r := array_sort compare xs]\<rparr>))
       (readScored st r)"

definition sliceScoredRef :: "nat \<Rightarrow> ref \<Rightarrow> store \<Rightarrow> (ref \<times> store) option" where
  "sliceScoredRef n r st = map_option (\<lambda>xs. newScored (take n xs) st) (readScored st r)"

definition mapMemoryRef :: "(Scored \<Rightarrow> Memory) \<Rightarrow> ref \<Rightarrow> store \<Rightarrow> (ref \<times> store) option" where
  "mapMemoryRef f r st = map_option (\<lambda>xs. newNotes (map f xs) st) (readScored st r)"

text \<open>Step 3 on references; the result is the reference held by \<open>relevantMemories\<close>.\<close>

definition rankMemories_store ::
  "ParsedIntent \<Rightarrow> embedding_call \<Rightarrow> ref \<Rightarrow> store \<Rightarrow> (ref \<times> store) option" where
  "rankMemories_store parsed embedReply filteredMemories st =
     (if keywords_str parsed \<noteq> [] \<and> length (keywords_str parsed) > 1
      then
        (case getEmbedding embedReply of
           Some queryEmbedding \<Rightarrow>
             Option.bind (readNotes st filteredMemories) (\<lambda>filtered.
               if length filtered > 0
               then
                 Option.bind (mapScoreRef (scoreMemory queryEmbedding) filteredMemories st)
                   (\<lambda>(memoriesWithScore, st1).
                 Option.bind (sortScoredRef byScore memoriesWithScore st1) (\<lambda>(sorted, st2).
                 Option.bind (sliceScoredRef 10 memoriesWithScore st2) (\<lambda>(top, st3).
                 mapMemoryRef memory top st3)))
               else sliceRef 10 filteredMemories st)
         | None \<Rightarrow> sliceRef 10 filteredMemories st)
      else
        Option.bind (sortRef byCreatedAt filteredMemories st) (\<lambda>(sorted, st1).
        sliceRef 10 sorted st1))"

text \<open>
  \<open>queryBrain\<close> on references, up to the value it returns. (The arrays made by
  \<open>memories.map(m => m.category)\<close> and by \<open>relevantMemories.map\<close> for the prompt are new and
  hold no notes; they are left out of the store.)
\<close>

definition queryBrain_store ::
  "(jsstring \<Rightarrow> jsstring) \<Rightarrow> jsstring \<Rightarrow> ref \<Rightarrow> Language \<Rightarrow> remote \<Rightarrow> store \<Rightarrow> (QueryResult \<times> store) option" where
  "queryBrain_store toLowerCase userQuery memories language services st =
     Option.bind (readNotes st memories) (\<lambda>notes.
       let uniqueCategories = uniqueValues (map Memory.category notes);
           parsed = parseSearchIntentTyped userQuery uniqueCategories language (parseReply services)
       in
         Option.bind (filterRef (keepMemory toLowerCase parsed) memories st) (\<lambda>(filteredMemories, st1).
         Option.bind (rankMemories_store parsed (embeddingReply services) filteredMemories st1)
           (\<lambda>(relevantMemories, st2).
         Option.bind (readNotes st2 relevantMemories) (\<lambda>relevant.
           if length relevant = 0
           then Some (\<lparr>answer = noMatchesAnswer language, relatedIds = [],
                       usedFilters = Some parsed\<rparr>, st2)
           else Some (synthesize language parsed (synthesisReply services), st2)))))"

definition exampleStore :: store where
  "exampleStore = \<lparr>noteArrays = [exampleRanking], scoredArrays = []\<rparr>"

section \<open>Rounding to binary64\<close>

lemma roundHalfEven_near:
  assumes "\<bar>x - of_int m\<bar> < 1 / 2"
  shows "roundHalfEven x = m"
proof -
  have lo: "of_int m - 1 / 2 < x" and hi: "x < of_int m + 1 / 2"
    using assms by linarith+
  show ?thesis
  proof (cases "of_int m \<le> x")
    case True
    then have f: "\<lfloor>x\<rfloor> = m"
      using hi by (simp add: floor_eq_iff)
    then show ?thesis using hi by (simp add: roundHalfEven_def Let_def)
  next
    case False
    then have f: "\<lfloor>x\<rfloor> = m - 1"
      using lo by (simp add: floor_eq_iff)
    then show ?thesis using lo False by (simp add: roundHalfEven_def Let_def)
  qed
qed

lemma roundHalfEven_of_int: "roundHalfEven (of_int m) = m"
  by (rule roundHalfEven_near) simp

lemma roundHalfEven_cases:
  "roundHalfEven x = \<lfloor>x\<rfloor> \<and> x - of_int \<lfloor>x\<rfloor> \<le> 1 / 2 \<or>
   roundHalfEven x = \<lfloor>x\<rfloor> + 1 \<and> 1 / 2 \<le> x - of_int \<lfloor>x\<rfloor>"
  by (auto simp: roundHalfEven_def Let_def)

lemma roundHalfEven_bounds: "\<lfloor>x\<rfloor> \<le> roundHalfEven x" "roundHalfEven x \<le> \<lfloor>x\<rfloor> + 1"
  by (simp_all add: roundHalfEven_def Let_def)

lemma roundHalfEven_error: "\<bar>of_int (roundHalfEven x) - x\<bar> \<le> 1 / 2"
proof -
  have "of_int \<lfloor>x\<rfloor> \<le> x" "x < of_int \<lfloor>x\<rfloor> + 1"
    by linarith+
  then show ?thesis
    using roundHalfEven_cases [of x] by (auto simp: abs_le_iff)
qed


lemma roundHalfEven_le_minus_1:
  assumes "x \<le> - 1"
  shows "roundHalfEven x \<le> - 1"
proof -
  have f: "\<lfloor>x\<rfloor> \<le> - 1" using assms by (simp add: floor_le_iff)
  show ?thesis
  proof (cases "\<lfloor>x\<rfloor> = - 1")
    case True
    then have "x - of_int \<lfloor>x\<rfloor> \<le> 0" using assms by simp
    then show ?thesis using roundHalfEven_cases [of x] True by auto
  next
    case False
    then have "\<lfloor>x\<rfloor> \<le> - 2" using f by linarith
    then show ?thesis using roundHalfEven_bounds(2) [of x] by linarith
  qed
qed

lemma roundHalfEven_minus: "roundHalfEven (- x) = - roundHalfEven x"
proof (cases "x = of_int \<lfloor>x\<rfloor>")
  case True
  then show ?thesis
    using roundHalfEven_of_int [of "- \<lfloor>x\<rfloor>"] roundHalfEven_of_int [of "\<lfloor>x\<rfloor>"]
    by (metis of_int_minus)
next
  case False
  define n where "n = \<lfloor>x\<rfloor>"
  define r where "r = x - of_int n"
  have fl: "\<lfloor>- x\<rfloor> = - n - 1"
    using False by (simp add: floor_minus ceiling_altdef n_def)
  have r': "(- x) - of_int (- n - 1) = 1 - r"
    by (simp add: r_def)
  have pos: "roundHalfEven x =
      (if r < 1 / 2 then n else if 1 / 2 < r then n + 1 else if even n then n else n + 1)"
    by (simp add: roundHalfEven_def Let_def n_def r_def)
  have neg: "roundHalfEven (- x) =
      (if 1 - r < 1 / 2 then - n - 1 else if 1 / 2 < 1 - r then - n
       else if even (- n - 1) then - n - 1 else - n)"
    unfolding roundHalfEven_def Let_def fl r' by simp
  consider "r < 1 / 2" | "1 / 2 < r" | "r = 1 / 2" by linarith
  then show ?thesis
  proof cases
    case 1
    then show ?thesis unfolding pos neg by simp
  next
    case 2
    then show ?thesis unfolding pos neg by simp
  next
    case 3
    then show ?thesis unfolding pos neg by simp
  qed
qed

lemma floor_log_bounds:
  assumes "x \<noteq> 0"
  shows "2 powr real_of_int \<lfloor>log 2 \<bar>x\<bar>\<rfloor> \<le> \<bar>x\<bar>"
    and "\<bar>x\<bar> < 2 powr (real_of_int \<lfloor>log 2 \<bar>x\<bar>\<rfloor> + 1)"
proof -
  have pos: "0 < \<bar>x\<bar>" using assms by simp
  have "\<lfloor>log 2 \<bar>x\<bar>\<rfloor> = \<lfloor>log 2 \<bar>x\<bar>\<rfloor>" ..
  then have "2 powr real_of_int \<lfloor>log 2 \<bar>x\<bar>\<rfloor> \<le> \<bar>x\<bar> \<and>
      \<bar>x\<bar> < 2 powr real_of_int (\<lfloor>log 2 \<bar>x\<bar>\<rfloor> + 1)"
    using pos by (subst (asm) floor_log_eq_powr_iff) simp_all
  then show "2 powr real_of_int \<lfloor>log 2 \<bar>x\<bar>\<rfloor> \<le> \<bar>x\<bar>"
    and "\<bar>x\<bar> < 2 powr (real_of_int \<lfloor>log 2 \<bar>x\<bar>\<rfloor> + 1)"
    by (simp_all add: add.commute)
qed

lemma ulpExponent_eq:
  assumes "2 powr real_of_int e \<le> \<bar>x\<bar>" "\<bar>x\<bar> < 2 powr (real_of_int e + 1)" "- 1022 \<le> e"
  shows "ulpExponent x = e - 52"
proof -
  have "0 < \<bar>x\<bar>" using assms(1) powr_gt_zero [of 2 "real_of_int e"] by linarith
  then have "\<lfloor>log 2 \<bar>x\<bar>\<rfloor> = e"
    using assms by (simp add: floor_log_eq_powr_iff)
  then show ?thesis using assms(3) by (simp add: ulpExponent_def)
qed

lemma ulpExponent_minus: "ulpExponent (- x) = ulpExponent x"
  by (simp add: ulpExponent_def)


text \<open>The unit in the last place is at most \<open>\<bar>x\<bar> / 2 ^ 52\<close> in the normal range.\<close>

lemma ulp_normal:
  assumes "2 powr (- 1022) \<le> \<bar>x\<bar>"
  shows "2 powr real_of_int (ulpExponent x) \<le> \<bar>x\<bar> * 2 powr (- 52)"
proof -
  have nz: "x \<noteq> 0" using assms powr_gt_zero [of 2 "- 1022"] by auto
  define e where "e = \<lfloor>log 2 \<bar>x\<bar>\<rfloor>"
  have "- 1022 \<le> log 2 \<bar>x\<bar>"
    using nz assms by (subst le_log_iff) simp_all
  then have e: "- 1022 \<le> e" unfolding e_def by (simp add: le_floor_iff)
  have "2 powr real_of_int (ulpExponent x) = 2 powr (real_of_int e + (- 52))"
    using e by (simp add: ulpExponent_def e_def)
  also have "\<dots> = 2 powr real_of_int e * 2 powr (- 52)"
    by (rule powr_add)
  also have "\<dots> \<le> \<bar>x\<bar> * 2 powr (- 52)"
    using floor_log_bounds(1) [OF nz] by (simp add: e_def)
  finally show ?thesis .
qed

lemma ulp_small:
  assumes "x \<noteq> 0" "\<bar>x\<bar> < 2 powr (- 1022)"
  shows "ulpExponent x = - 1074"
proof -
  have "log 2 \<bar>x\<bar> < - 1022"
    using assms by (subst log_less_iff) simp_all
  then have "\<lfloor>log 2 \<bar>x\<bar>\<rfloor> < - 1022" by (simp add: floor_less_iff)
  then show ?thesis by (simp add: ulpExponent_def)
qed


lemma roundDouble_zero: "roundDouble 0 = Finite 0"
  by (simp add: roundDouble_def)

lemma roundDouble_minus: "roundDouble (- x) = fneg (roundDouble x)"
proof (cases "x = 0")
  case True
  then show ?thesis by (simp add: roundDouble_def)
next
  case False
  define y :: real where
    "y = of_int (roundHalfEven (x / 2 powr of_int (ulpExponent x))) * 2 powr of_int (ulpExponent x)"
  have pos: "0 < overflowThreshold" by (simp add: overflowThreshold_def)
  have x: "roundDouble x =
      (if overflowThreshold \<le> y then PosInf else if y \<le> - overflowThreshold then NegInf else Finite y)"
    using False by (simp add: roundDouble_def Let_def y_def)
  have m: "roundDouble (- x) =
      (if overflowThreshold \<le> - y then PosInf else if - y \<le> - overflowThreshold then NegInf
       else Finite (- y))"
    using False by (simp add: roundDouble_def Let_def y_def ulpExponent_minus roundHalfEven_minus)
  show ?thesis
    unfolding x m using pos by auto
qed

lemma roundDouble_near:
  assumes "2 powr real_of_int e \<le> \<bar>x\<bar>" "\<bar>x\<bar> < 2 powr (real_of_int e + 1)" "- 1022 \<le> e"
    and "\<bar>x / 2 powr real_of_int (e - 52) - of_int m\<bar> < 1 / 2"
    and "\<bar>of_int m * 2 powr real_of_int (e - 52)\<bar> < overflowThreshold"
  shows "roundDouble x = Finite (of_int m * 2 powr real_of_int (e - 52))"
proof -
  have nz: "x \<noteq> 0" using assms(1) powr_gt_zero [of 2 "real_of_int e"] by auto
  have u: "ulpExponent x = e - 52" using assms(1-3) by (rule ulpExponent_eq)
  have m: "roundHalfEven (x / 2 powr real_of_int (e - 52)) = m"
    using assms(4) by (rule roundHalfEven_near)
  have "roundDouble x =
      (let y = of_int m * 2 powr real_of_int (e - 52)
       in if overflowThreshold \<le> y then PosInf
          else if y \<le> - overflowThreshold then NegInf else Finite y)"
    unfolding roundDouble_def u Let_def m using nz by simp
  then show ?thesis
    using assms(5) by (simp add: Let_def abs_less_iff)
qed

lemma roundDouble_tiny:
  assumes "\<bar>x\<bar> < 2 powr (- 1075)"
  shows "roundDouble x = Finite 0"
proof (cases "x = 0")
  case True
  then show ?thesis by (simp add: roundDouble_zero)
next
  case False
  have "(2::real) powr (- 1075) \<le> 2 powr (- 1022)" by (rule powr_mono) simp_all
  then have "\<bar>x\<bar> < 2 powr (- 1022)" using assms by linarith
  then have u: "ulpExponent x = - 1074" using False by (simp add: ulp_small)
  have "(2::real) powr (- 1075) = 2 powr ((- 1074) + (- 1))" by simp
  also have "\<dots> = 2 powr (- 1074) * 2 powr (- 1)" by (rule powr_add)
  also have "\<dots> = 2 powr (- 1074) / 2" by (simp add: powr_minus_divide)
  finally have "\<bar>x\<bar> < 2 powr (- 1074) / 2" using assms by simp
  then have "\<bar>x\<bar> / 2 powr (- 1074) < 1 / 2"
    by (simp add: field_simps)
  then have "\<bar>x / 2 powr real_of_int (- 1074) - of_int 0\<bar> < 1 / 2"
    by simp
  then have "roundHalfEven (x / 2 powr real_of_int (- 1074)) = 0"
    by (rule roundHalfEven_near)
  then show ?thesis
    using False by (simp add: roundDouble_def u Let_def overflowThreshold_def)
qed







text \<open>Rounding in the normal range keeps the relative error within \<open>2 powr -53\<close>.\<close>

lemma roundDouble_relative:
  assumes "2 powr (- 1022) \<le> \<bar>x\<bar>" "\<bar>x\<bar> \<le> 2 powr 1023"
  shows "\<exists>y. roundDouble x = Finite y \<and> \<bar>y - x\<bar> \<le> \<bar>x\<bar> * 2 powr (- 53)"
proof -
  define u :: real where "u = 2 powr of_int (ulpExponent x)"
  define y :: real where "y = of_int (roundHalfEven (x / u)) * u"
  have nz: "x \<noteq> 0" using assms(1) powr_gt_zero [of 2 "- 1022"] by auto
  have u: "0 < u" by (simp add: u_def)
  have ulp: "u \<le> \<bar>x\<bar> * 2 powr (- 52)"
    using ulp_normal [OF assms(1)] by (simp add: u_def)
  have half: "(2::real) powr (- 52) / 2 = 2 powr (- 53)"
  proof -
    have "(2::real) powr (- 53) = 2 powr ((- 52) + (- 1))" by simp
    also have "\<dots> = 2 powr (- 52) * 2 powr (- 1)" by (rule powr_add)
    also have "\<dots> = 2 powr (- 52) / 2" by (simp add: powr_minus_divide)
    finally show ?thesis by simp
  qed
  have "y - x = (of_int (roundHalfEven (x / u)) - x / u) * u"
    using u by (simp add: y_def algebra_simps)
  then have "\<bar>y - x\<bar> = \<bar>of_int (roundHalfEven (x / u)) - x / u\<bar> * u"
    using u by (simp add: abs_mult)
  also have "\<dots> \<le> 1 / 2 * u"
    using roundHalfEven_error [of "x / u"] u by (intro mult_right_mono) simp_all
  also have "\<dots> \<le> 1 / 2 * (\<bar>x\<bar> * 2 powr (- 52))"
    using ulp by simp
  also have "\<dots> = \<bar>x\<bar> * 2 powr (- 53)"
    using half by simp
  finally have err: "\<bar>y - x\<bar> \<le> \<bar>x\<bar> * 2 powr (- 53)" .
  have small: "(2::real) powr (- 53) < 1"
    using powr_less_mono [of "- 53" 0 "2::real"] by simp
  have "\<bar>y\<bar> \<le> \<bar>x\<bar> + \<bar>x\<bar> * 2 powr (- 53)" using err by linarith
  also have "\<dots> < \<bar>x\<bar> + \<bar>x\<bar> * 1"
    using small nz by (intro add_strict_left_mono mult_strict_left_mono) simp_all
  also have "\<dots> \<le> 2 * 2 powr 1023" using assms(2) by simp
  also have "\<dots> = overflowThreshold" by (simp add: overflowThreshold_def)
  finally have bound: "\<bar>y\<bar> < overflowThreshold" .
  have "roundDouble x =
      (if overflowThreshold \<le> y then PosInf else if y \<le> - overflowThreshold then NegInf else Finite y)"
    using nz by (simp add: roundDouble_def Let_def y_def u_def)
  then have "roundDouble x = Finite y" using bound by (simp add: abs_less_iff)
  then show ?thesis using err by blast
qed

section \<open>cosineSimilarity\<close>

lemma cosineLoop_fold:
  assumes "length a = length b"
  shows "cosineLoop a b i (d, na, nb) =
     (foldl (\<lambda>s (x, y). fadd s (fmul x y)) d (zip (drop i a) (drop i b)),
      foldl (\<lambda>s (x, y). fadd s (fmul x y)) na (zip (drop i a) (drop i a)),
      foldl (\<lambda>s (x, y). fadd s (fmul x y)) nb (zip (drop i b) (drop i b)))"
  using assms
proof (induction a b i "(d, na, nb)" arbitrary: d na nb rule: cosineLoop.induct)
  case (1 vecA vecB i dotProduct normA normB)
  show ?case
  proof (cases "i < length vecA")
    case True
    then have a: "drop i vecA = vecA ! i # drop (Suc i) vecA"
      and b: "drop i vecB = vecB ! i # drop (Suc i) vecB"
      using "1.prems" by (simp_all add: Cons_nth_drop_Suc)
    show ?thesis
      using "1.hyps" [OF True "1.prems"] True
      by (subst cosineLoop.simps) (simp add: a b)
  next
    case False
    then show ?thesis
      using "1.prems" by (subst cosineLoop.simps) simp
  qed
qed

lemma cosineLoop_start:
  "length a = length b \<Longrightarrow>
     cosineLoop a b 0 (Finite 0, Finite 0, Finite 0) =
       (accumulatedDot a b, accumulatedSquares a, accumulatedSquares b)"
  by (simp add: cosineLoop_fold accumulatedDot_def accumulatedSquares_def)

lemma cosineSimilarity_Some:
  "length a = length b \<Longrightarrow>
   cosineSimilarity (Some a) (Some b) =
     (if accumulatedSquares a = Finite 0 \<or> accumulatedSquares b = Finite 0 then Finite 0
      else fdiv (accumulatedDot a b)
             (fmul (fsqrt (accumulatedSquares a)) (fsqrt (accumulatedSquares b))))"
  by (simp add: cosineSimilarity_def cosineLoop_start)

lemma fold_zeros:
  assumes "list_all (\<lambda>x. x = Finite 0) v"
  shows "foldl (\<lambda>s (x, y). fadd s (fmul x y)) (Finite 0) (zip v v) = Finite 0"
  using assms by (induction v) (simp_all add: roundDouble_zero)

lemma all_zero_squares: "all_zero v \<Longrightarrow> accumulatedSquares v = Finite 0"
  by (simp add: all_zero_def accumulatedSquares_def accumulatedDot_def fold_zeros)

subsection \<open>Negating a vector\<close>

lemma fmul_fneg: "fmul x (fneg y) = fneg (fmul x y)"
  by (cases x; cases y) (simp_all add: roundDouble_minus)

lemma fmul_fneg_left: "fmul (fneg x) y = fneg (fmul x y)"
  by (cases x; cases y) (simp_all add: roundDouble_minus)

lemma fneg_fneg: "fneg (fneg x) = x"
  by (cases x) simp_all

lemma fadd_fneg: "fadd (fneg x) (fneg y) = fneg (fadd x y)"
proof (cases x; cases y)
  fix s t
  assume "x = Finite s" "y = Finite t"
  then show ?thesis
    using roundDouble_minus [of "s + t"] by simp
qed simp_all

lemma fdiv_fneg: "fdiv (fneg x) y = fneg (fdiv x y)"
proof (cases x; cases y)
  fix s t
  assume "x = Finite s" "y = Finite t"
  then show ?thesis
    using roundDouble_minus [of "s / t"] by simp
qed (simp_all add: fneg_fneg)

lemma fold_negated:
  "foldl (\<lambda>s (x, y). fadd s (fmul x y)) (fneg d) (zip v (map fneg v)) =
     fneg (foldl (\<lambda>s (x, y). fadd s (fmul x y)) d (zip v v))"
proof (induction v arbitrary: d)
  case Nil
  then show ?case by simp
next
  case (Cons x v)
  have "fadd (fneg d) (fmul x (fneg x)) = fneg (fadd d (fmul x x))"
    by (simp add: fmul_fneg fadd_fneg)
  then show ?case using Cons.IH [of "fadd d (fmul x x)"] by simp
qed

lemma fold_negated_both:
  "foldl (\<lambda>s (x, y). fadd s (fmul x y)) d (zip (map fneg v) (map fneg v)) =
     foldl (\<lambda>s (x, y). fadd s (fmul x y)) d (zip v v)"
  by (induction v arbitrary: d) (simp_all add: fmul_fneg fmul_fneg_left fneg_fneg)

lemma accumulated_negated:
  "accumulatedDot v (map fneg v) = fneg (accumulatedSquares v)"
  "accumulatedSquares (map fneg v) = accumulatedSquares v"
proof -
  show "accumulatedDot v (map fneg v) = fneg (accumulatedSquares v)"
    using fold_negated [of "Finite 0" v]
    by (simp add: accumulatedDot_def accumulatedSquares_def)
  show "accumulatedSquares (map fneg v) = accumulatedSquares v"
    by (simp add: accumulatedDot_def accumulatedSquares_def fold_negated_both)
qed

lemma cosineSimilarity_negated:
  "cosineSimilarity (Some v) (Some (map fneg v)) = fneg (cosineSimilarity (Some v) (Some v))"
  by (simp add: cosineSimilarity_Some accumulated_negated fdiv_fneg)
    (simp add: accumulatedSquares_def)

subsection \<open>The vector [1, 1, 1]\<close>

lemma round_1: "roundDouble 1 = Finite 1"
proof -
  have "roundDouble 1 = Finite (of_int (2 ^ 52) * 2 powr real_of_int (0 - 52))"
    by (rule roundDouble_near) (simp_all add: powr_minus overflowThreshold_def)
  then show ?thesis by (simp add: powr_minus)
qed

lemma round_2: "roundDouble 2 = Finite 2"
proof -
  have "roundDouble 2 = Finite (of_int (2 ^ 52) * 2 powr real_of_int (1 - 52))"
    by (rule roundDouble_near) (simp_all add: powr_minus overflowThreshold_def)
  then show ?thesis by (simp add: powr_minus)
qed

lemma round_3: "roundDouble 3 = Finite 3"
proof -
  have "roundDouble 3 = Finite (of_int (3 * 2 ^ 51) * 2 powr real_of_int (1 - 52))"
    by (rule roundDouble_near) (simp_all add: powr_minus overflowThreshold_def)
  then show ?thesis by (simp add: powr_minus)
qed

lemma squares_ones:
  "accumulatedDot [Finite 1, Finite 1, Finite 1] [Finite 1, Finite 1, Finite 1] = Finite 3"
  by (simp add: accumulatedDot_def round_1 round_2 round_3)

text \<open>\<open>Math.sqrt(3)\<close> is 7800463371553962 / 2 ^ 52 = 1.7320508075688772.\<close>

lemma near_half: "m - 1 / 2 < x \<Longrightarrow> x < m + 1 / 2 \<Longrightarrow> \<bar>x - m\<bar> < 1 / (2::real)"
  by linarith

lemma round_sqrt_3: "roundDouble (sqrt 3) = Finite (7800463371553962 / 2 ^ 52)"
proof -
  have lo: "(7800463371553962 - 1 / 2) / 2 ^ 52 < sqrt 3"
    by (rule real_less_rsqrt) (simp add: power2_eq_square)
  have hi: "sqrt 3 < (7800463371553962 + 1 / 2) / 2 ^ 52"
    by (rule real_less_lsqrt) (simp_all add: power2_eq_square)
  have one: "1 \<le> sqrt 3" by simp
  have two: "sqrt 3 < 2"
    by (rule real_less_lsqrt) simp_all
  have below: "sqrt 3 * 2 ^ 52 < 7800463371553962 + 1 / 2"
    using hi by (simp add: field_simps)
  have above: "7800463371553962 - 1 / 2 < sqrt 3 * 2 ^ 52"
    using lo by (simp add: field_simps)
  have scaled: "sqrt 3 / 2 powr real_of_int (0 - 52) = sqrt 3 * 2 ^ 52"
    by (simp add: powr_minus)
  have near: "\<bar>sqrt 3 / 2 powr real_of_int (0 - 52) - of_int 7800463371553962\<bar> < 1 / 2"
    unfolding scaled of_int_numeral using above below by (rule near_half)
  have "roundDouble (sqrt 3) = Finite (of_int 7800463371553962 * 2 powr real_of_int (0 - 52))"
    using one two near by (intro roundDouble_near) (simp_all add: powr_minus overflowThreshold_def)
  then show ?thesis by (simp add: powr_minus)
qed

text \<open>Its square rounds to 6755399441055743 / 2 ^ 51 = 2.9999999999999996.\<close>

lemma round_square:
  "roundDouble (7800463371553962 / 2 ^ 52 * (7800463371553962 / 2 ^ 52)) =
     Finite (6755399441055743 / 2 ^ 51)"
proof -
  have "roundDouble (7800463371553962 / 2 ^ 52 * (7800463371553962 / 2 ^ 52)) =
      Finite (of_int 6755399441055743 * 2 powr real_of_int (1 - 52))"
    by (rule roundDouble_near) (simp_all add: powr_minus overflowThreshold_def)
  then show ?thesis by (simp add: powr_minus)
qed

text \<open>And 3 divided by that rounds to 4503599627370497 / 2 ^ 52 = 1.0000000000000002.\<close>

lemma round_quotient:
  "roundDouble (3 / (6755399441055743 / 2 ^ 51)) = Finite (1 + 1 / 2 ^ 52)"
proof -
  have "roundDouble (3 / (6755399441055743 / 2 ^ 51)) =
      Finite (of_int 4503599627370497 * 2 powr real_of_int (0 - 52))"
    by (rule roundDouble_near) (simp_all add: powr_minus overflowThreshold_def)
  then show ?thesis by (simp add: powr_minus)
qed

lemma cosine_ones:
  "cosineSimilarity (Some [Finite 1, Finite 1, Finite 1]) (Some [Finite 1, Finite 1, Finite 1]) =
     Finite (1 + 1 / 2 ^ 52)"
proof -
  let ?v = "[Finite 1, Finite 1, Finite 1]"
  have squares: "accumulatedSquares ?v = Finite 3"
    using squares_ones by (simp add: accumulatedSquares_def)
  have root: "fsqrt (Finite 3) = Finite (7800463371553962 / 2 ^ 52)"
    using round_sqrt_3 by simp
  have product: "fmul (Finite (7800463371553962 / 2 ^ 52)) (Finite (7800463371553962 / 2 ^ 52)) =
      Finite (6755399441055743 / 2 ^ 51)"
    using round_square by (simp only: fmul.simps)
  have quotient: "fdiv (Finite 3) (Finite (6755399441055743 / 2 ^ 51)) = Finite (1 + 1 / 2 ^ 52)"
    using round_quotient by simp
  have "cosineSimilarity (Some ?v) (Some ?v) =
      fdiv (accumulatedDot ?v ?v) (fmul (fsqrt (accumulatedSquares ?v)) (fsqrt (accumulatedSquares ?v)))"
    by (simp add: cosineSimilarity_Some squares)
  also have "\<dots> = Finite (1 + 1 / 2 ^ 52)"
    by (simp only: squares squares_ones root product quotient)
  finally show ?thesis .
qed

subsection \<open>A vector whose square underflows\<close>

lemma squares_tiny: "accumulatedSquares [tiny] = Finite 0"
proof -
  have "\<bar>1 / 2 ^ 600 * (1 / 2 ^ 600)\<bar> < (2::real) powr (- 1075)"
    by (simp add: powr_minus)
  then have "roundDouble (1 / 2 ^ 600 * (1 / 2 ^ 600)) = Finite 0"
    by (rule roundDouble_tiny)
  then show ?thesis
    by (simp add: accumulatedSquares_def accumulatedDot_def roundDouble_zero tiny_def)
qed

lemma tiny_nonzero: "tiny \<noteq> Finite 0"
  by (simp add: tiny_def)

lemma cosine_tiny: "cosineSimilarity (Some [tiny]) (Some [tiny]) = Finite 0"
  by (simp add: cosineSimilarity_Some squares_tiny)

subsection \<open>Degenerate cases and the quotient\<close>


lemma cosineSimilarity_lengths:
  "length a \<noteq> length b \<Longrightarrow> cosineSimilarity (Some a) (Some b) = Finite 0"
  by (simp add: cosineSimilarity_def)

lemma cosineSimilarity_all_zero:
  assumes "all_zero a \<or> all_zero b"
  shows "cosineSimilarity (Some a) (Some b) = Finite 0"
proof (cases "length a = length b")
  case True
  then show ?thesis
    using assms by (auto simp: cosineSimilarity_Some all_zero_squares)
next
  case False
  then show ?thesis by (rule cosineSimilarity_lengths)
qed




subsection \<open>The similarity of a vector with itself\<close>

lemma step_bounds:
  fixes x y u lo hi :: real
  assumes "\<bar>y - x\<bar> \<le> \<bar>x\<bar> * u" "0 \<le> lo" "lo \<le> x" "x \<le> hi" "0 \<le> u" "u \<le> 1"
  shows "(1 - u) * lo \<le> y" "y \<le> (1 + u) * hi"
proof -
  have x: "0 \<le> x" using assms(2,3) by simp
  then have "x - x * u \<le> y" "y \<le> x + x * u"
    using assms(1) by (simp_all add: abs_le_iff)
  then have lower: "(1 - u) * x \<le> y" and upper: "y \<le> (1 + u) * x"
    by (simp_all add: algebra_simps)
  have "(1 - u) * lo \<le> (1 - u) * x"
    using assms(3,6) by (intro mult_left_mono) simp_all
  then show "(1 - u) * lo \<le> y" using lower by simp
  have "(1 + u) * x \<le> (1 + u) * hi"
    using assms(4,5) by (intro mult_left_mono) simp_all
  then show "y \<le> (1 + u) * hi" using upper by simp
qed

lemma enclosed:
  fixes a b c e :: real
  shows "1 - e \<le> a \<Longrightarrow> a \<le> c \<Longrightarrow> c \<le> b \<Longrightarrow> b \<le> 1 + e \<Longrightarrow> \<bar>c - 1\<bar> \<le> e"
  by linarith

lemma unit_roundoff_bounds:
  fixes u :: real
  assumes "u = 1 / 2 ^ 53"
  shows "1 - 1 / 2 ^ 50 \<le> (1 - u) * (1 / ((1 + u) * ((1 + u) * ((1 + u) * 1))))"
    and "(1 + u) * (1 / ((1 - u) * ((1 - u) * ((1 - u) * 1)))) \<le> 1 + 1 / 2 ^ 50"
  unfolding assms by (simp_all add: field_simps)

lemma powr_facts:
  "(2::real) powr (- 1022) = 2 powr (- 1020) / 4"
  "4 * (2::real) powr 1020 \<le> 2 powr 1023"
  "(2::real) powr (- 1022) \<le> 1 / 8"
  "(8::real) \<le> 2 powr 1023"
  "sqrt (2 powr (- 1020)) = 2 powr (- 510)"
  "sqrt (2 powr 1020) = 2 powr 510"
  "(2::real) powr (- 1022) \<le> 2 powr (- 510)"
  "(2::real) powr 510 \<le> 2 powr 1023"
proof -
  have "(2::real) powr (- 1020) = 2 powr (- 1022 + 2)" by simp
  also have "\<dots> = 2 powr (- 1022) * 2 powr 2" by (simp only: powr_add)
  finally show "(2::real) powr (- 1022) = 2 powr (- 1020) / 4" by simp
  have "(2::real) powr 1023 = 2 powr (1020 + 3)" by simp
  also have "\<dots> = 2 powr 1020 * 2 powr 3" by (simp only: powr_add)
  finally have "(2::real) powr 1023 = 8 * 2 powr 1020" by simp
  moreover have "(0::real) < 2 powr 1020" by simp
  ultimately show "4 * (2::real) powr 1020 \<le> 2 powr 1023" by linarith
  have "(2::real) powr (- 1022) \<le> 2 powr (- 3)" by (rule powr_mono) simp_all
  then show "(2::real) powr (- 1022) \<le> 1 / 8" by (simp add: powr_minus)
  have "(2::real) powr 3 \<le> 2 powr 1023" by (rule powr_mono) simp_all
  then show "(8::real) \<le> 2 powr 1023" by simp
  have "sqrt (2 powr (- 1020)) = (2 powr (- 1020)) powr (1 / 2)"
    by (simp add: powr_half_sqrt)
  also have "\<dots> = 2 powr (- 1020 * (1 / 2))" by (simp only: powr_powr)
  finally show "sqrt (2 powr (- 1020)) = 2 powr (- 510)" by simp
  have "sqrt (2 powr 1020) = ((2::real) powr 1020) powr (1 / 2)"
    by (simp only: powr_half_sqrt [OF powr_ge_zero])
  also have "\<dots> = 2 powr (1020 * (1 / 2))" by (simp only: powr_powr)
  finally show "sqrt (2 powr 1020) = 2 powr 510" by simp
  show "(2::real) powr (- 1022) \<le> 2 powr (- 510)" by (rule powr_mono) simp_all
  show "(2::real) powr 510 \<le> 2 powr 1023" by (rule powr_mono) simp_all
qed

lemma self_similarity:
  fixes n :: real
  assumes lo: "2 powr (- 1020) \<le> n" and hi: "n \<le> 2 powr 1020"
  shows "\<exists>c. fdiv (Finite n) (fmul (fsqrt (Finite n)) (fsqrt (Finite n))) = Finite c \<and>
           \<bar>c - 1\<bar> \<le> 1 / 2 ^ 50"
proof -
  define u :: real where "u = 1 / 2 ^ 53"
  have u: "2 powr (- 53) = u" by (simp add: u_def powr_minus)
  have u0: "0 \<le> u" "u \<le> 1" by (simp_all add: u_def)
  have small: "1 / 4 \<le> (1 - u) * (1 - u)" "(1 + u) * (1 + u) \<le> 4"
    "0 < (1 - u) * ((1 - u) * (1 - u))" "0 < (1 + u) * ((1 + u) * (1 + u))"
    "1 / 8 \<le> 1 / ((1 + u) * ((1 + u) * (1 + u)))"
    "1 / ((1 - u) * ((1 - u) * (1 - u))) \<le> 8"
    by (simp_all add: u_def field_simps)
  have npos: "0 < n" using lo powr_gt_zero [of 2 "- 1020"] by linarith
  define r where "r = sqrt n"
  have rpos: "0 < r" using npos by (simp add: r_def)
  have rr: "r * r = n" using npos by (simp add: r_def)
  have rlo: "2 powr (- 510) \<le> r"
    using real_sqrt_le_mono [OF lo] by (simp add: powr_facts r_def)
  have rhi: "r \<le> 2 powr 510"
    using real_sqrt_le_mono [OF hi] by (simp add: powr_facts r_def)
  have "2 powr (- 1022) \<le> \<bar>r\<bar>" "\<bar>r\<bar> \<le> 2 powr 1023"
    using rlo rhi rpos powr_facts(7,8) by linarith+
  from roundDouble_relative [OF this]
  obtain s where s: "roundDouble r = Finite s" and serr: "\<bar>s - r\<bar> \<le> \<bar>r\<bar> * u"
    unfolding u by blast
  have sb: "(1 - u) * r \<le> s" "s \<le> (1 + u) * r"
    using step_bounds [OF serr _ order_refl order_refl u0] rpos by simp_all
  have s0: "0 \<le> (1 - u) * r" using u0 rpos by simp
  have "((1 - u) * r) * ((1 - u) * r) \<le> s * s"
    using sb(1) s0 by (intro mult_mono) simp_all
  moreover have "((1 - u) * r) * ((1 - u) * r) = (1 - u) * (1 - u) * (r * r)"
    by (simp add: mult_ac)
  ultimately have sslo: "(1 - u) * (1 - u) * n \<le> s * s"
    by (simp only: rr)
  have "s * s \<le> ((1 + u) * r) * ((1 + u) * r)"
    using sb s0 by (intro mult_mono) simp_all
  moreover have "((1 + u) * r) * ((1 + u) * r) = (1 + u) * (1 + u) * (r * r)"
    by (simp add: mult_ac)
  ultimately have sshi: "s * s \<le> (1 + u) * (1 + u) * n"
    by (simp only: rr)
  have "1 / 4 * n \<le> (1 - u) * (1 - u) * n"
    using small(1) npos by (intro mult_right_mono) simp_all
  then have ss_range_lo: "2 powr (- 1022) \<le> s * s"
    using sslo lo by (simp add: powr_facts(1))
  have "(1 + u) * (1 + u) * n \<le> 4 * n"
    using small(2) npos by (intro mult_right_mono) simp_all
  then have ss_range_hi: "s * s \<le> 2 powr 1023"
    using sshi hi powr_facts(2) by linarith
  have "2 powr (- 1022) \<le> \<bar>s * s\<bar>" "\<bar>s * s\<bar> \<le> 2 powr 1023"
    using ss_range_lo ss_range_hi by simp_all
  from roundDouble_relative [OF this]
  obtain p where p: "roundDouble (s * s) = Finite p" and perr: "\<bar>p - s * s\<bar> \<le> \<bar>s * s\<bar> * u"
    unfolding u by blast
  have lo0: "0 \<le> (1 - u) * (1 - u) * n" using npos by simp
  have pb: "(1 - u) * ((1 - u) * (1 - u) * n) \<le> p" "p \<le> (1 + u) * ((1 + u) * (1 + u) * n)"
    using step_bounds [OF perr lo0 sslo sshi u0] by simp_all
  define A where "A = (1 - u) * ((1 - u) * (1 - u))"
  define B where "B = (1 + u) * ((1 + u) * (1 + u))"
  have A: "0 < A" and B: "0 < B" using small(3,4) by (simp_all add: A_def B_def)
  have pA: "A * n \<le> p" and pB: "p \<le> B * n"
    using pb by (simp_all add: A_def B_def algebra_simps)
  have ppos: "0 < p" using pA mult_pos_pos [OF A npos] by linarith
  have "n / (B * n) \<le> n / p"
    using pB ppos npos by (intro divide_left_mono) simp_all
  then have qlo: "1 / B \<le> n / p" using npos by simp
  have An: "0 < A * n" using A npos by simp
  have "n / p \<le> n / (A * n)"
    using pA An ppos npos by (intro divide_left_mono) simp_all
  then have qhi: "n / p \<le> 1 / A" using npos by simp
  have Blo: "1 / 8 \<le> 1 / B" and Ahi: "1 / A \<le> 8"
    using small(5,6) by (simp_all add: A_def B_def)
  have "2 powr (- 1022) \<le> \<bar>n / p\<bar>" "\<bar>n / p\<bar> \<le> 2 powr 1023"
    using qlo qhi Blo Ahi powr_facts(3,4) by linarith+
  from roundDouble_relative [OF this]
  obtain c where c: "roundDouble (n / p) = Finite c" and cerr: "\<bar>c - n / p\<bar> \<le> \<bar>n / p\<bar> * u"
    unfolding u by blast
  have B0: "0 \<le> 1 / B" using B by simp
  have cb: "(1 - u) * (1 / B) \<le> c" "c \<le> (1 + u) * (1 / A)"
    using step_bounds [OF cerr B0 qlo qhi u0] by simp_all
  have ends: "1 - 1 / 2 ^ 50 \<le> (1 - u) * (1 / B)" "(1 + u) * (1 / A) \<le> 1 + 1 / 2 ^ 50"
    using unit_roundoff_bounds [OF u_def] by (simp_all add: A_def B_def)
  have close: "\<bar>c - 1\<bar> \<le> 1 / 2 ^ 50"
    using ends(1) cb ends(2) by (rule enclosed)
  have "fsqrt (Finite n) = Finite s"
    using npos s by (simp add: r_def)
  moreover have "fmul (Finite s) (Finite s) = Finite p"
    using p by simp
  moreover have "fdiv (Finite n) (Finite p) = Finite c"
    using c ppos by simp
  ultimately show ?thesis
    using close by simp
qed

text \<open>
  Claim C8, as stated, fails on the code. The vector \<open>[tiny]\<close> is nonzero, its square
  underflows to 0, and its similarity with itself is 0, not approximately 1. The
  similarity of \<open>[1, 1, 1]\<close> with its negation is \<open>- (1 + 1 / 2 ^ 52)\<close>, not -1.
\<close>

theorem cosineSimilarity_identities_counterexample:
  "\<not> all_zero [tiny] \<and>
   cosineSimilarity (Some [tiny]) (Some [tiny]) = Finite 0 \<and>
   \<not> all_zero [Finite 1, Finite 1, Finite 1] \<and>
   cosineSimilarity (Some [Finite 1, Finite 1, Finite 1])
     (Some [Finite (- 1), Finite (- 1), Finite (- 1)]) = Finite (- (1 + 1 / 2 ^ 52)) \<and>
   cosineSimilarity (Some [Finite 1, Finite 1, Finite 1])
     (Some [Finite (- 1), Finite (- 1), Finite (- 1)]) \<noteq> Finite (- 1)"
proof -
  have "cosineSimilarity (Some [Finite 1, Finite 1, Finite 1])
      (Some (map fneg [Finite 1, Finite 1, Finite 1])) = Finite (- (1 + 1 / 2 ^ 52))"
    by (simp only: cosineSimilarity_negated cosine_ones fneg.simps)
  then show ?thesis
    by (simp add: all_zero_def tiny_nonzero cosine_tiny)
qed

text \<open>
  Claim C8, amended. For every vector \<open>v\<close> whose squared magnitude, as accumulated in
  double precision, is a finite number between \<open>1 / 2 ^ 1020\<close> and \<open>2 ^ 1020\<close>, the
  similarity of \<open>v\<close> with itself is a finite number within \<open>1 / 2 ^ 50\<close> of 1 and its
  similarity with \<open>-v\<close> is within \<open>1 / 2 ^ 50\<close> of -1; for every \<open>v\<close>, the similarity with
  \<open>-v\<close> is exactly the negation of the similarity with itself; the similarity of \<open>v\<close>
  and \<open>w\<close> is 0 when either is all-zero or when their lengths differ.
\<close>

theorem cosineSimilarity_identities:
  "(accumulatedSquares v = Finite n \<and> 1 / 2 ^ 1020 \<le> n \<and> n \<le> 2 ^ 1020 \<longrightarrow>
      approximately 1 (1 / 2 ^ 50) (cosineSimilarity (Some v) (Some v)) \<and>
      approximately (- 1) (1 / 2 ^ 50) (cosineSimilarity (Some v) (Some (map fneg v)))) \<and>
   cosineSimilarity (Some v) (Some (map fneg v)) = fneg (cosineSimilarity (Some v) (Some v)) \<and>
   (all_zero v \<or> all_zero w \<or> length v \<noteq> length w \<longrightarrow>
      cosineSimilarity (Some v) (Some w) = Finite 0)"
proof -
  have same: "approximately 1 (1 / 2 ^ 50) (cosineSimilarity (Some v) (Some v)) \<and>
      approximately (- 1) (1 / 2 ^ 50) (cosineSimilarity (Some v) (Some (map fneg v)))"
    if squares: "accumulatedSquares v = Finite n" and lo: "1 / 2 ^ 1020 \<le> n" and hi: "n \<le> 2 ^ 1020"
  proof -
    have lo': "2 powr (- 1020) \<le> n" using lo by (simp add: powr_minus_divide)
    have hi': "n \<le> 2 powr 1020" using hi by simp
    have npos: "n \<noteq> 0" using lo' powr_gt_zero [of 2 "- 1020"] by linarith
    obtain c where c: "fdiv (Finite n) (fmul (fsqrt (Finite n)) (fsqrt (Finite n))) = Finite c"
      and close: "\<bar>c - 1\<bar> \<le> 1 / 2 ^ 50"
      using self_similarity [OF lo' hi'] by blast
    have dot: "accumulatedDot v v = Finite n"
      using squares by (simp add: accumulatedSquares_def)
    have selfsim: "cosineSimilarity (Some v) (Some v) = Finite c"
      using npos by (simp only: cosineSimilarity_Some [OF refl] squares dot c) simp
    have "\<bar>- c - (- 1)\<bar> = \<bar>c - 1\<bar>" by simp
    then have "\<bar>- c - (- 1)\<bar> \<le> 1 / 2 ^ 50" using close by (simp only:)
    then show ?thesis
      using close by (simp only: cosineSimilarity_negated selfsim fneg.simps approximately.simps simp_thms)
  qed
  have degenerate: "cosineSimilarity (Some v) (Some w) = Finite 0"
    if "all_zero v \<or> all_zero w \<or> length v \<noteq> length w"
    using that cosineSimilarity_all_zero [of v w] cosineSimilarity_lengths [of v w] by blast
  show ?thesis
    using same degenerate cosineSimilarity_negated [of v] by blast
qed

theorem cosineSimilarity_identities_witness:
  "accumulatedSquares [Finite 1, Finite 1, Finite 1] = Finite 3 \<and>
   1 / 2 ^ 1020 \<le> (3::real) \<and> (3::real) \<le> 2 ^ 1020 \<and>
   approximately 1 (1 / 2 ^ 50)
     (cosineSimilarity (Some [Finite 1, Finite 1, Finite 1]) (Some [Finite 1, Finite 1, Finite 1])) \<and>
   approximately (- 1) (1 / 2 ^ 50)
     (cosineSimilarity (Some [Finite 1, Finite 1, Finite 1])
        (Some [Finite (- 1), Finite (- 1), Finite (- 1)])) \<and>
   all_zero [Finite 0, Finite 0, Finite 0] \<and>
   cosineSimilarity (Some [Finite 1, Finite 1, Finite 1]) (Some [Finite 0, Finite 0, Finite 0]) =
     Finite 0 \<and>
   length [Finite 1, Finite 1, Finite 1] \<noteq> length [Finite 1] \<and>
   cosineSimilarity (Some [Finite 1, Finite 1, Finite 1]) (Some [Finite 1]) = Finite 0"
proof -
  have ones: "accumulatedSquares [Finite 1, Finite 1, Finite 1] = Finite 3"
    using squares_ones by (simp add: accumulatedSquares_def)
  show ?thesis
    using cosineSimilarity_identities [of "[Finite 1, Finite 1, Finite 1]" 3
        "[Finite 0, Finite 0, Finite 0]"]
      cosineSimilarity_identities [of "[Finite 1, Finite 1, Finite 1]" 3 "[Finite 1]"]
    by (simp add: ones all_zero_def)
qed

section \<open>The hard filter\<close>

lemmas ev = keepMemory_def filterMemories_def exampleNote_def exampleIntent_def
  asciiLower_def lowerUnit_def utf16_def

text \<open>
  Claim C1, as stated, fails on the code in two ways. An intent whose category is the
  empty string filters nothing, although no note's category equals it; and a note whose
  stored tag is \<open>React\<close> is dropped for the requested tag \<open>react\<close>, although the two
  match case-insensitively. (All strings are ASCII.)
\<close>

theorem hard_filter_counterexample:
  "filterMemories asciiLower (exampleIntent '''' (Some '''') [] None None)
       [exampleNote ''Coding'' [''react''] 5 None]
     \<noteq> filter (specKeeps asciiLower (exampleIntent '''' (Some '''') [] None None))
        [exampleNote ''Coding'' [''react''] 5 None]
   \<and> filterMemories asciiLower (exampleIntent '''' None [''react''] None None)
       [exampleNote ''Coding'' [''React''] 5 None]
     \<noteq> filter (specKeeps asciiLower (exampleIntent '''' None [''react''] None None))
        [exampleNote ''Coding'' [''React''] 5 None]"
  by (simp add: ev specKeeps_def)

lemma keepMemory_truthKeeps:
  assumes "lowerCaseTags toLowerCase m"
  shows "keepMemory toLowerCase parsed m = truthKeeps toLowerCase parsed m"
proof -
  have low: "\<And>u. u \<in> set (Memory.tags m) \<Longrightarrow> toLowerCase u = u"
    using assms by (simp add: lowerCaseTags_def list_all_iff)
  have tag: "list_ex (\<lambda>t. toLowerCase t \<in> set (Memory.tags m)) ts =
      list_ex (\<lambda>t. list_ex (\<lambda>u. toLowerCase t = toLowerCase u) (Memory.tags m)) ts" for ts
    using low by (auto simp: list_ex_iff)
  show ?thesis
    unfolding keepMemory_def truthKeeps_def tag
    by (auto split: option.splits)
qed

text \<open>
  Claim C1, amended. A note whose tags are stored in lower case is among the candidates
  if and only if it is in the collection and (a) the intent's category is null or empty
  or equals the note's category case-insensitively, (b) the intent's tag list is empty or
  one of its tags matches a tag of the note case-insensitively, (c) \<open>startDate\<close> is null
  or 0 or \<open>createdAt \<ge> startDate\<close>, (d) \<open>endDate\<close> is null or 0 or
  \<open>createdAt \<le> endDate\<close>. The candidates are a subsequence of the collection, whatever
  its notes, so they keep their relative order. This holds for every lower-casing function.
\<close>

theorem hard_filter_amended:
  "subseq (filterMemories toLowerCase parsed memories) memories \<and>
   (\<forall>m. lowerCaseTags toLowerCase m \<longrightarrow>
      (m \<in> set (filterMemories toLowerCase parsed memories) \<longleftrightarrow>
         m \<in> set memories \<and> truthKeeps toLowerCase parsed m)) \<and>
   ((\<forall>m \<in> set memories. lowerCaseTags toLowerCase m) \<longrightarrow>
      filterMemories toLowerCase parsed memories = filter (truthKeeps toLowerCase parsed) memories)"
proof (intro conjI allI impI)
  show "subseq (filterMemories toLowerCase parsed memories) memories"
    by (simp add: filterMemories_def)
next
  fix m
  assume "lowerCaseTags toLowerCase m"
  then show "m \<in> set (filterMemories toLowerCase parsed memories) \<longleftrightarrow>
      m \<in> set memories \<and> truthKeeps toLowerCase parsed m"
    by (auto simp: filterMemories_def keepMemory_truthKeeps)
next
  assume "\<forall>m \<in> set memories. lowerCaseTags toLowerCase m"
  then show "filterMemories toLowerCase parsed memories = filter (truthKeeps toLowerCase parsed) memories"
    unfolding filterMemories_def
    by (intro filter_cong refl) (simp add: keepMemory_truthKeeps)
qed

theorem hard_filter_amended_witness:
  "(let memories = [exampleNote ''Cooking'' [''pasta''] 1 None,
                    exampleNote ''Coding'' [''react''] 2 None,
                    exampleNote ''coding'' [''vue''] 3 None,
                    exampleNote ''Coding'' [''React''] 3 None,
                    exampleNote ''Coding'' [''react''] 9 None];
        parsed = exampleIntent '''' (Some ''CODING'') [''React'', ''Vue''] (Some 2) (Some 3)
    in lowerCaseTags asciiLower (exampleNote ''Coding'' [''react''] 2 None) \<and>
       truthKeeps asciiLower parsed (exampleNote ''Coding'' [''react''] 2 None) \<and>
       exampleNote ''Coding'' [''react''] 2 None \<in> set (filterMemories asciiLower parsed memories) \<and>
       lowerCaseTags asciiLower (exampleNote ''Coding'' [''react''] 9 None) \<and>
       \<not> truthKeeps asciiLower parsed (exampleNote ''Coding'' [''react''] 9 None) \<and>
       exampleNote ''Coding'' [''react''] 9 None \<notin> set (filterMemories asciiLower parsed memories) \<and>
       filterMemories asciiLower parsed memories =
         [exampleNote ''Coding'' [''react''] 2 None, exampleNote ''coding'' [''vue''] 3 None] \<and>
       subseq (filterMemories asciiLower parsed memories) memories \<and>
       list_all (lowerCaseTags asciiLower) (take 3 memories) \<and>
       filter (truthKeeps asciiLower parsed) (take 3 memories) =
         [exampleNote ''Coding'' [''react''] 2 None, exampleNote ''coding'' [''vue''] 3 None] \<and>
       filterMemories asciiLower parsed (take 3 memories) =
         [exampleNote ''Coding'' [''react''] 2 None, exampleNote ''coding'' [''vue''] 3 None])"
proof -
  let ?memories = "[exampleNote ''Cooking'' [''pasta''] 1 None,
                    exampleNote ''Coding'' [''react''] 2 None,
                    exampleNote ''coding'' [''vue''] 3 None,
                    exampleNote ''Coding'' [''React''] 3 None,
                    exampleNote ''Coding'' [''react''] 9 None]"
  let ?parsed = "exampleIntent '''' (Some ''CODING'') [''React'', ''Vue''] (Some 2) (Some 3)"
  have low: "lowerCaseTags asciiLower (exampleNote ''Coding'' [''react''] 2 None)"
    "lowerCaseTags asciiLower (exampleNote ''Coding'' [''react''] 9 None)"
    by (simp_all add: ev lowerCaseTags_def)
  have keeps: "truthKeeps asciiLower ?parsed (exampleNote ''Coding'' [''react''] 2 None)"
    "\<not> truthKeeps asciiLower ?parsed (exampleNote ''Coding'' [''react''] 9 None)"
    by (simp_all add: ev truthKeeps_def)
  have res: "filterMemories asciiLower ?parsed ?memories =
      [exampleNote ''Coding'' [''react''] 2 None, exampleNote ''coding'' [''vue''] 3 None]"
    by (simp add: ev)
  have lower: "list_all (lowerCaseTags asciiLower) (take 3 ?memories)"
    by (simp add: ev lowerCaseTags_def)
  have spec: "filter (truthKeeps asciiLower ?parsed) (take 3 ?memories) =
      [exampleNote ''Coding'' [''react''] 2 None, exampleNote ''coding'' [''vue''] 3 None]"
    by (simp add: ev truthKeeps_def)
  show ?thesis
    using hard_filter_amended [of asciiLower ?parsed ?memories]
      hard_filter_amended [of asciiLower ?parsed "take 3 ?memories"] low keeps res lower spec
    by (simp add: Let_def list_all_iff)
qed

lemma keepMemory_falsy:
  "keepMemory toLowerCase (parsed\<lparr>startDate := Some 0\<rparr>) = keepMemory toLowerCase (parsed\<lparr>startDate := None\<rparr>)"
  "keepMemory toLowerCase (parsed\<lparr>endDate := Some 0\<rparr>) = keepMemory toLowerCase (parsed\<lparr>endDate := None\<rparr>)"
  "keepMemory toLowerCase (parsed\<lparr>category := Some []\<rparr>) = keepMemory toLowerCase (parsed\<lparr>category := None\<rparr>)"
  by (rule ext, simp add: keepMemory_def)+

text \<open>
  Claim C10. A \<open>startDate\<close> of 0 switches the lower date bound off, an \<open>endDate\<close> of 0
  the upper one, and an empty category the category filter: the callback decides, and the
  filter returns, what it does when the field is null.
\<close>

theorem falsy_filters_disabled:
  "keepMemory toLowerCase (parsed\<lparr>startDate := Some 0\<rparr>) m =
     keepMemory toLowerCase (parsed\<lparr>startDate := None\<rparr>) m \<and>
   keepMemory toLowerCase (parsed\<lparr>endDate := Some 0\<rparr>) m =
     keepMemory toLowerCase (parsed\<lparr>endDate := None\<rparr>) m \<and>
   keepMemory toLowerCase (parsed\<lparr>category := Some []\<rparr>) m =
     keepMemory toLowerCase (parsed\<lparr>category := None\<rparr>) m \<and>
   filterMemories toLowerCase (parsed\<lparr>startDate := Some 0\<rparr>) memories =
     filterMemories toLowerCase (parsed\<lparr>startDate := None\<rparr>) memories \<and>
   filterMemories toLowerCase (parsed\<lparr>endDate := Some 0\<rparr>) memories =
     filterMemories toLowerCase (parsed\<lparr>endDate := None\<rparr>) memories \<and>
   filterMemories toLowerCase (parsed\<lparr>category := Some []\<rparr>) memories =
     filterMemories toLowerCase (parsed\<lparr>category := None\<rparr>) memories"
  by (simp add: keepMemory_falsy filterMemories_def)

theorem falsy_filters_disabled_witness:
  "filterMemories asciiLower (exampleIntent '''' None [] (Some 0) None)
       [exampleNote ''Coding'' [] (- 5) None]
     = [exampleNote ''Coding'' [] (- 5) None] \<and>
   filterMemories asciiLower (exampleIntent '''' None [] None (Some 0))
       [exampleNote ''Coding'' [] 5 None]
     = [exampleNote ''Coding'' [] 5 None] \<and>
   filterMemories asciiLower (exampleIntent '''' (Some '''') [] None None)
       [exampleNote ''Coding'' [] 5 None]
     = [exampleNote ''Coding'' [] 5 None]"
  using falsy_filters_disabled [of asciiLower "exampleIntent '''' None [] None None"
      "exampleNote ''Coding'' [] (- 5) None" "[exampleNote ''Coding'' [] (- 5) None]"]
    falsy_filters_disabled [of asciiLower "exampleIntent '''' None [] None None"
      "exampleNote ''Coding'' [] 5 None" "[exampleNote ''Coding'' [] 5 None]"]
  by (simp add: ev)

section \<open>The fallbacks\<close>

lemma parseSearchIntent_typed:
  "parseSearchIntent query categories language (map_generation intentJson outcome) =
     intentJson (parseSearchIntentTyped query categories language outcome)"
  by (cases outcome)
    (simp_all add: parseSearchIntent_def parseSearchIntent_try_def parseSearchIntentTyped_def
      intentJson_def)

lemma conformsIntent_intentJson: "conformsIntent (intentJson p)"
  by (simp add: intentJson_def utf16_def list_all_iff split: option.splits)

text \<open>
  Claim C6, as stated, fails on the code for a reply that is JSON but not of the schema:
  the object \<open>{"keywords": "x"}\<close> has no category, tags or dates, and \<open>null\<close> is no
  object at all, yet each is returned as it is, not replaced by the fallback.
\<close>

theorem parseSearchIntent_counterexample:
  "\<not> conformsIntent (JObj [(utf16 ''keywords'', JStr (utf16 ''x''))]) \<and>
   parseSearchIntent (utf16 ''show coding notes'') [utf16 ''Coding''] EN
       (Parsed (JObj [(utf16 ''keywords'', JStr (utf16 ''x''))]))
     = JObj [(utf16 ''keywords'', JStr (utf16 ''x''))] \<and>
   parseSearchIntent (utf16 ''show coding notes'') [utf16 ''Coding''] EN
       (Parsed (JObj [(utf16 ''keywords'', JStr (utf16 ''x''))]))
     \<noteq> JObj [(utf16 ''keywords'', JStr (utf16 ''show coding notes'')),
             (utf16 ''category'', JNull),
             (utf16 ''tags'', JArr []),
             (utf16 ''startDate'', JNull),
             (utf16 ''endDate'', JNull)] \<and>
   \<not> conformsIntent JNull \<and>
   parseSearchIntent (utf16 ''show coding notes'') [utf16 ''Coding''] EN (Parsed JNull) = JNull"
  by (simp add: parseSearchIntent_def parseSearchIntent_try_def utf16_def)

text \<open>
  Claim C6, amended. Whenever the intent-parsing call fails (the promise rejects, the
  response has no text, or the text is not JSON), the \<open>try\<close> block throws and
  \<open>parseSearchIntent\<close> returns exactly \<open>{keywords: query, category: null, tags: [],
  startDate: null, endDate: null}\<close>. A reply that parses is returned as it is, whether it
  conforms to the schema or not. The function never raises.
\<close>

theorem parseSearchIntent_fallback:
  "(outcome = Rejected \<or> outcome = NoText \<or> outcome = Malformed \<longrightarrow>
      (\<exists>err. parseSearchIntent_try outcome = Inl err) \<and>
      parseSearchIntent query categories language outcome =
        JObj [(utf16 ''keywords'', JStr query),
              (utf16 ''category'', JNull),
              (utf16 ''tags'', JArr []),
              (utf16 ''startDate'', JNull),
              (utf16 ''endDate'', JNull)]) \<and>
   parseSearchIntent query categories language (Parsed v) = v"
  by (auto simp: parseSearchIntent_def parseSearchIntent_try_def)

theorem parseSearchIntent_fallback_witness:
  "parseSearchIntent [0x68, 0x69] [utf16 ''Coding''] EN Rejected =
     JObj [([0x6B, 0x65, 0x79, 0x77, 0x6F, 0x72, 0x64, 0x73], JStr [0x68, 0x69]),
           ([0x63, 0x61, 0x74, 0x65, 0x67, 0x6F, 0x72, 0x79], JNull),
           ([0x74, 0x61, 0x67, 0x73], JArr []),
           ([0x73, 0x74, 0x61, 0x72, 0x74, 0x44, 0x61, 0x74, 0x65], JNull),
           ([0x65, 0x6E, 0x64, 0x44, 0x61, 0x74, 0x65], JNull)] \<and>
   parseSearchIntent [0x68, 0x69] [utf16 ''Coding''] EN NoText =
     parseSearchIntent [0x68, 0x69] [utf16 ''Coding''] EN Rejected \<and>
   parseSearchIntent [0x68, 0x69] [utf16 ''Coding''] EN Malformed =
     parseSearchIntent [0x68, 0x69] [utf16 ''Coding''] EN Rejected \<and>
   parseSearchIntent [0x68, 0x69] [utf16 ''Coding''] EN
       (Parsed (intentJson (exampleIntent ''hi'' None [] None None))) =
     intentJson (exampleIntent ''hi'' None [] None None)"
  using parseSearchIntent_fallback [of Rejected "[0x68, 0x69]" "[utf16 ''Coding'']" EN JNull]
    parseSearchIntent_fallback [of NoText "[0x68, 0x69]" "[utf16 ''Coding'']" EN JNull]
    parseSearchIntent_fallback [of Malformed "[0x68, 0x69]" "[utf16 ''Coding'']" EN
      "intentJson (exampleIntent ''hi'' None [] None None)"]
  by (simp add: utf16_def)

text \<open>
  Claim C5, as stated, fails on the code for JSON that parses but does not conform to the
  schema: the object \<open>{"tags": []}\<close> has no summary and no category, yet it is returned
  with an \<open>embedding\<close> key added, not replaced by the fallback.
\<close>

theorem analyzeContent_counterexample:
  "\<not> conformsAnnotation (JObj [(utf16 ''tags'', JArr [])]) \<and>
   analyzeContent (utf16 ''hello'') None [] EN (Parsed (JObj [(utf16 ''tags'', JArr [])])) EmbedRejected
     = JObj [(utf16 ''tags'', JArr []), (utf16 ''embedding'', JUndefined)] \<and>
   analyzeContent (utf16 ''hello'') None [] EN (Parsed (JObj [(utf16 ''tags'', JArr [])])) EmbedRejected
     \<noteq> analyzeFallback (utf16 ''hello'')"
  by (simp add: analyzeContent_def analyzeContent_try_def analyzeFallback_def getEmbedding_def
      embeddingValue_def utf16_def)

text \<open>
  Claim C5, amended. Whenever the annotation call fails (the promise rejects, the response
  has no text, the text is not JSON, or the parsed value is not an object whose \<open>tags\<close>
  is an array), \<open>analyzeContent\<close> returns exactly the fallback: the first 50 code units of
  the text followed by \<open>...\<close> as summary, the tags \<open>["uncategorized"]\<close>, the category
  \<open>General\<close>, and no embedding. Every parsed value that conforms to the schema has an
  array of tags.
\<close>

theorem analyzeContent_fallback:
  "(outcome = Rejected \<or> outcome = NoText \<or> outcome = Malformed \<or>
    (\<exists>v. outcome = Parsed v \<and> \<not> hasArrayTags v) \<longrightarrow>
      analyzeContent text base64Image existingCategories language outcome embedReply =
        JObj [(utf16 ''summary'', JStr (take 50 text @ utf16 ''...'')),
              (utf16 ''tags'', JArr [JStr (utf16 ''uncategorized'')]),
              (utf16 ''category'', JStr (utf16 ''General''))]) \<and>
   getProp (analyzeFallback text) (utf16 ''embedding'') = Inr JUndefined \<and>
   (conformsAnnotation v \<longrightarrow> hasArrayTags v)"
proof -
  have untagged: "analyzeContent_try (Parsed v) embedReply = Inl TypeError"
    if "\<not> hasArrayTags v" for v
  proof (cases v)
    case (JObj props)
    then show ?thesis
      using that
      by (cases "map_of props (utf16 ''tags'')"; cases "the (map_of props (utf16 ''tags''))")
        (simp_all add: analyzeContent_try_def)
  qed (simp_all add: analyzeContent_try_def)
  have failing: "analyzeContent text base64Image existingCategories language outcome embedReply =
      analyzeFallback text"
    if "outcome = Rejected \<or> outcome = NoText \<or> outcome = Malformed \<or>
      (\<exists>v. outcome = Parsed v \<and> \<not> hasArrayTags v)"
    using that untagged by (auto simp: analyzeContent_def analyzeContent_try_def)
  have absent: "getProp (analyzeFallback text) (utf16 ''embedding'') = Inr JUndefined"
    by (simp add: analyzeFallback_def utf16_def)
  have conf: "conformsAnnotation v \<longrightarrow> hasArrayTags v"
  proof (cases v)
    case (JObj props)
    then show ?thesis
      by (cases "map_of props (utf16 ''tags'')"; cases "the (map_of props (utf16 ''tags''))")
        simp_all
  qed simp_all
  show ?thesis
    using failing absent conf unfolding analyzeFallback_def by blast
qed

theorem analyzeContent_fallback_witness:
  "\<not> hasArrayTags (JObj [(utf16 ''summary'', JStr (utf16 ''s''))]) \<and>
   analyzeContent (utf16 ''hello world this is a very long note content exceeding fifty chars'')
       None [] EN (Parsed (JObj [(utf16 ''summary'', JStr (utf16 ''s''))])) EmbedRejected =
     JObj [(utf16 ''summary'',
              JStr (utf16 ''hello world this is a very long note content excee...'')),
           (utf16 ''tags'', JArr [JStr (utf16 ''uncategorized'')]),
           (utf16 ''category'', JStr (utf16 ''General''))] \<and>
   analyzeContent (utf16 ''hello world this is a very long note content exceeding fifty chars'')
       None [] EN Rejected EmbedRejected =
     JObj [(utf16 ''summary'',
              JStr (utf16 ''hello world this is a very long note content excee...'')),
           (utf16 ''tags'', JArr [JStr (utf16 ''uncategorized'')]),
           (utf16 ''category'', JStr (utf16 ''General''))]"
  using analyzeContent_fallback [of "Parsed (JObj [(utf16 ''summary'', JStr (utf16 ''s''))])"
      "utf16 ''hello world this is a very long note content exceeding fifty chars''"
      None "[]" EN EmbedRejected JNull]
    analyzeContent_fallback [of Rejected
      "utf16 ''hello world this is a very long note content exceeding fifty chars''"
      None "[]" EN EmbedRejected JNull]
  by (simp add: utf16_def)

section \<open>Sorting and ranking\<close>

lemma mset_insertSorted: "mset (insertSorted compare x xs) = add_mset x (mset xs)"
  by (induction xs) auto

lemma mset_array_sort: "mset (array_sort compare xs) = mset xs"
  by (induction xs) (auto simp: array_sort_def mset_insertSorted)



lemma length_array_sort: "length (array_sort compare xs) = length xs"
  using mset_array_sort [of compare xs] by (metis size_mset)














subsection \<open>The comparator of the keyword ranking\<close>











subsection \<open>Scores of the examples\<close>








section \<open>The note collection is left as it was\<close>

lemmas store_ops = readNotes_def readScored_def newNotes_def newScored_def filterRef_def
  sliceRef_def sortRef_def mapScoreRef_def sortScoredRef_def sliceScoredRef_def mapMemoryRef_def

lemma rankMemories_store_result:
  "\<exists>X Y. rankMemories_store parsed reply (length ns) \<lparr>noteArrays = ns @ [filtered], scoredArrays = ss\<rparr> =
     Some (Suc (length ns),
       \<lparr>noteArrays = ns @ [X, fst (rankMemories parsed reply filtered)], scoredArrays = ss @ Y\<rparr>)"
proof (cases "keywords_str parsed \<noteq> [] \<and> length (keywords_str parsed) > 1")
  case False
  then show ?thesis
    by (auto simp: rankMemories_store_def rankMemories_def store_ops nth_append)
next
  case long: True
  show ?thesis
  proof (cases "getEmbedding reply")
    case None
    then show ?thesis
      using long by (simp add: rankMemories_store_def rankMemories_def store_ops nth_append)
  next
    case (Some q)
    show ?thesis
    proof (cases "filtered = []")
      case True
      then show ?thesis
        using long Some by (simp add: rankMemories_store_def rankMemories_def store_ops nth_append)
    next
      case False
      then show ?thesis
        using long Some
        by (simp add: rankMemories_store_def rankMemories_def store_ops nth_append take_map)
    qed
  qed
qed

lemma queryBrain_store_result:
  assumes "readNotes st memories = Some notes"
  shows "\<exists>X Y. queryBrain_store toLowerCase userQuery memories language services st =
     Some (fst (queryBrain toLowerCase userQuery notes language services),
       \<lparr>noteArrays = noteArrays st @
          [X, fst (rankMemories
                (parseSearchIntentTyped userQuery (uniqueValues (map Memory.category notes)) language
                  (parseReply services))
                (embeddingReply services)
                (filterMemories toLowerCase
                  (parseSearchIntentTyped userQuery (uniqueValues (map Memory.category notes)) language
                    (parseReply services)) notes))],
        scoredArrays = scoredArrays st @ Y\<rparr>)"
proof -
  define parsed where "parsed =
    parseSearchIntentTyped userQuery (uniqueValues (map Memory.category notes)) language (parseReply services)"
  define filtered where "filtered = filterMemories toLowerCase parsed notes"
  have st: "st = \<lparr>noteArrays = noteArrays st, scoredArrays = scoredArrays st\<rparr>"
    by simp
  have filter: "filterRef (keepMemory toLowerCase parsed) memories st =
      Some (length (noteArrays st),
        \<lparr>noteArrays = noteArrays st @ [filtered], scoredArrays = scoredArrays st\<rparr>)"
    using assms
    by (simp add: filterRef_def newNotes_def filtered_def filterMemories_def)
  obtain X Y where rank: "rankMemories_store parsed (embeddingReply services) (length (noteArrays st))
      \<lparr>noteArrays = noteArrays st @ [filtered], scoredArrays = scoredArrays st\<rparr> =
     Some (Suc (length (noteArrays st)),
       \<lparr>noteArrays = noteArrays st @ [X, fst (rankMemories parsed (embeddingReply services) filtered)],
        scoredArrays = scoredArrays st @ Y\<rparr>)"
    using rankMemories_store_result by blast
  have "queryBrain_store toLowerCase userQuery memories language services st =
     Some (fst (queryBrain toLowerCase userQuery notes language services),
       \<lparr>noteArrays = noteArrays st @ [X, fst (rankMemories parsed (embeddingReply services) filtered)],
        scoredArrays = scoredArrays st @ Y\<rparr>)"
    using assms
    by (simp add: queryBrain_store_def queryBrain_def Let_def filter rank readNotes_def
        nth_append flip: parsed_def filtered_def)
  then show ?thesis
    unfolding parsed_def filtered_def by blast
qed

text \<open>
  Claim C9. A run of \<open>queryBrain\<close> on a reference to the note collection returns the
  value computed from the notes as they were, and in the store it leaves behind the
  collection holds the same notes in the same order; so does every other array that
  existed before the run: the two in-place sorts rearrange arrays that the run itself
  allocated. (A sort through the collection's own reference would reorder it, as the
  example store shows.)
\<close>

theorem queryBrain_leaves_memories:
  assumes "readNotes st memories = Some notes"
  shows "\<exists>st'. queryBrain_store toLowerCase userQuery memories language services st =
       Some (fst (queryBrain toLowerCase userQuery notes language services), st') \<and>
     readNotes st' memories = Some notes \<and>
     take (length (noteArrays st)) (noteArrays st') = noteArrays st \<and>
     take (length (scoredArrays st)) (scoredArrays st') = scoredArrays st"
proof -
  from queryBrain_store_result [OF assms] obtain X Y Z where
    "queryBrain_store toLowerCase userQuery memories language services st =
       Some (fst (queryBrain toLowerCase userQuery notes language services),
         \<lparr>noteArrays = noteArrays st @ [X, Z], scoredArrays = scoredArrays st @ Y\<rparr>)"
    by blast
  moreover have "readNotes \<lparr>noteArrays = noteArrays st @ [X, Z], scoredArrays = scoredArrays st @ Y\<rparr>
      memories = Some notes"
    using assms by (auto simp: readNotes_def nth_append split: if_splits)
  ultimately show ?thesis
    by simp
qed

theorem queryBrain_leaves_memories_witness:
  "readNotes exampleStore 0 = Some exampleRanking \<and>
   (\<exists>st'. queryBrain_store asciiLower (utf16 ''all'') 0 EN
        \<lparr>parseReply = Parsed (exampleIntent '''' None [] None None),
         embeddingReply = EmbedRejected, synthesisReply = Rejected\<rparr> exampleStore =
       Some (fst (queryBrain asciiLower (utf16 ''all'') exampleRanking EN
         \<lparr>parseReply = Parsed (exampleIntent '''' None [] None None),
          embeddingReply = EmbedRejected, synthesisReply = Rejected\<rparr>), st') \<and>
      readNotes st' 0 = Some exampleRanking) \<and>
   map_option (\<lambda>(r, st'). readNotes st' 0) (sortRef byCreatedAt 0 exampleStore) =
     Some (Some (rev exampleRanking))"
proof -
  have present: "readNotes exampleStore 0 = Some exampleRanking"
    by (simp add: readNotes_def exampleStore_def)
  have sorted: "map_option (\<lambda>(r, st'). readNotes st' 0) (sortRef byCreatedAt 0 exampleStore) =
     Some (Some (rev exampleRanking))"
    by (simp add: sortRef_def readNotes_def exampleStore_def exampleRanking_def exampleNote_def
        array_sort_def byCreatedAt_def)
  show ?thesis
    using queryBrain_leaves_memories [OF present, of asciiLower "utf16 ''all''" EN
        "\<lparr>parseReply = Parsed (exampleIntent '''' None [] None None),
          embeddingReply = EmbedRejected, synthesisReply = Rejected\<rparr>"] present sorted
    by blast
qed

end
